theory Spec2Isabelle
  imports Main "HOL-Library.Sublist"
begin

section \<open>Values, errors and the object store\<close>

text \<open>
  The library (\<^verbatim>\<open>src/src/state.js\<close>) is a graph of mutable JavaScript objects: regions,
  states, pseudo states, final states, completions and transitions, linked through
  \<^verbatim>\<open>Parent\<close>, \<^verbatim>\<open>Current\<close>, \<^verbatim>\<open>Initial\<close> and the child arrays. An object is an address
  into a store with one table per class; a reference carries the class of the object it
  points to, so that \<^verbatim>\<open>instanceof\<close> and method lookup are a case distinction on the
  reference.
\<close>

type_synonym addr = nat
type_synonym message = string

text \<open>A user action (an entry, exit or effect closure) is opaque: it is known by a label.\<close>
type_synonym action = string

datatype node = ARegion addr | AState addr | APseudoState addr | AFinalState addr

text \<open>
  \<^verbatim>\<open>Error\<close> is \<^verbatim>\<open>throw new Error( msg )\<close>; \<^verbatim>\<open>TypeError\<close> is what the engine raises for a
  property read or a method call on \<^verbatim>\<open>undefined\<close> and for a call of something that is
  not a function; \<^verbatim>\<open>AssertionError\<close> is a failed \<^verbatim>\<open>console.assert\<close>.
\<close>
datatype error = Error string | TypeError | AssertionError string

datatype 'a outcome = Return 'a | Throw error

text \<open>What a method hands back: \<^verbatim>\<open>undefined\<close> or a boolean.\<close>
datatype val = Undefined | Boolean bool

text \<open>
  One line of output or one call of a user action. \<open>LogEnter n\<close> and \<open>LogLeave n\<close> are
  \<^verbatim>\<open>console.log( "Enter: " + n )\<close> and \<^verbatim>\<open>console.log( "Leave: " + n )\<close>;
  \<open>Invoke a m\<close> is the call of action \<open>a\<close>, with the message when one is passed.
\<close>
datatype event = LogEnter node | LogLeave node | Invoke action "message option"

datatype PseudoStateKind = DeepHistory | EntryPoint | ExitPoint | Initial | ShallowHistory

fun IsInitial :: "PseudoStateKind \<Rightarrow> bool" where
  "IsInitial DeepHistory = True"
| "IsInitial EntryPoint = True"
| "IsInitial ExitPoint = False"
| "IsInitial Initial = True"
| "IsInitial ShallowHistory = True"

fun IsHistory :: "PseudoStateKind \<Rightarrow> bool" where
  "IsHistory DeepHistory = True"
| "IsHistory EntryPoint = False"
| "IsHistory ExitPoint = False"
| "IsHistory Initial = False"
| "IsHistory ShallowHistory = True"

text \<open>
  The result of \<^verbatim>\<open>Path( source, target )\<close>. \<open>Exit\<close> holds the nodes whose \<^verbatim>\<open>OnExit\<close> the
  closures call (\<open>None\<close> where the closure captured \<^verbatim>\<open>undefined\<close>), \<open>Enter\<close> the nodes
  whose \<^verbatim>\<open>BeginEnter\<close> is called, \<open>Complete\<close> the target whose \<^verbatim>\<open>EndEnter\<close> is called.
\<close>
record Path =
  Exit :: "node option list"
  Enter :: "node list"
  Complete :: node

record Region =
  Name :: string
  Parent :: "addr option"
  IsActive :: bool
  Vertices :: "node list"
  Initial :: "addr option"
  Current :: "node option"

record PseudoState =
  Kind :: PseudoStateKind
  Parent :: addr
  Completions :: "addr list"
  IsActive :: "bool option"

record State =
  Name :: string
  Parent :: "addr option"
  IsActive :: bool
  Entry :: "action list"
  Exit :: "action list"
  Regions :: "addr list"
  Completions :: "addr list"
  Transitions :: "addr list"
  defaultRegion :: "addr option"

record FinalState =
  Name :: string
  Parent :: addr
  IsActive :: bool

record Completion =
  Guard :: "unit \<Rightarrow> bool"
  Path :: Path
  Effect :: "action list"

record Transition =
  Guard :: "message \<Rightarrow> bool"
  Path :: Path
  Effect :: "action list"

record store =
  regions :: "addr \<Rightarrow> Region"
  pseudoStates :: "addr \<Rightarrow> PseudoState"
  states :: "addr \<Rightarrow> State"
  finalStates :: "addr \<Rightarrow> FinalState"
  completions :: "addr \<Rightarrow> Completion"
  transitions :: "addr \<Rightarrow> Transition"
  fresh :: addr
  console :: "event list"

section \<open>Computations\<close>

text \<open>
  A computation runs on a store and returns normally or throws, both with the store as it
  is at that moment; \<open>None\<close> is a call chain deeper than the depth it was given.
\<close>
type_synonym 'a comp = "store \<Rightarrow> ('a outcome \<times> store) option"

definition return :: "'a \<Rightarrow> 'a comp" where
  "return x \<sigma> = Some (Return x, \<sigma>)"

definition throw :: "error \<Rightarrow> 'a comp" where
  "throw e \<sigma> = Some (Throw e, \<sigma>)"

definition bind :: "'a comp \<Rightarrow> ('a \<Rightarrow> 'b comp) \<Rightarrow> 'b comp" where
  "bind m k \<sigma> =
     (case m \<sigma> of
        None \<Rightarrow> None
      | Some (Throw e, \<sigma>') \<Rightarrow> Some (Throw e, \<sigma>')
      | Some (Return x, \<sigma>') \<Rightarrow> k x \<sigma>')"

definition andThen :: "'a comp \<Rightarrow> 'b comp \<Rightarrow> 'b comp" where
  "andThen m k = bind m (\<lambda>_. k)"

definition modify :: "(store \<Rightarrow> store) \<Rightarrow> val comp" where
  "modify f \<sigma> = Some (Return Undefined, f \<sigma>)"

definition console_log :: "event \<Rightarrow> val comp" where
  "console_log e = modify (\<lambda>\<sigma>. \<sigma>\<lparr>console := console \<sigma> @ [e]\<rparr>)"

text \<open>\<^verbatim>\<open>action()\<close> and \<^verbatim>\<open>action( message )\<close>: the call is recorded, the store is otherwise untouched.\<close>
definition invoke :: "message option \<Rightarrow> action \<Rightarrow> val comp" where
  "invoke m a = console_log (Invoke a m)"

text \<open>\<^verbatim>\<open>Array.prototype.forEach\<close>: the elements in index order, stopping at the first throw.\<close>
fun forEach :: "('a \<Rightarrow> val comp) \<Rightarrow> 'a list \<Rightarrow> val comp" where
  "forEach f [] = return Undefined"
| "forEach f (x # xs) = andThen (f x) (forEach f xs)"

section \<open>Array.prototype.single and singleOrDefault\<close>

definition single :: "('a \<Rightarrow> bool) option \<Rightarrow> 'a list \<Rightarrow> error + 'a" where
  "single predicate this =
     (let results = (case predicate of Some p \<Rightarrow> filter p this | None \<Rightarrow> this) in
      if length results = 1 then Inr (results ! 0)
      else Inl (Error ''Cannot return zero or more than one elements''))"

text \<open>The bare \<^verbatim>\<open>return;\<close> of the empty case is \<open>None\<close>.\<close>
definition singleOrDefault :: "('a \<Rightarrow> bool) option \<Rightarrow> 'a list \<Rightarrow> error + 'a option" where
  "singleOrDefault predicate this =
     (let results = (case predicate of Some p \<Rightarrow> filter p this | None \<Rightarrow> this) in
      if length results = 1 then Inr (Some (results ! 0))
      else if length results = 0 then Inr None
      else Inl (Error ''Cannot return more than one elements''))"

section \<open>Field updates\<close>

definition set_Region_IsActive :: "addr \<Rightarrow> bool \<Rightarrow> store \<Rightarrow> store" where
  "set_Region_IsActive r b \<sigma> = \<sigma>\<lparr>regions := (regions \<sigma>)(r := (regions \<sigma> r)\<lparr>Region.IsActive := b\<rparr>)\<rparr>"

definition set_Region_Current :: "addr \<Rightarrow> node \<Rightarrow> store \<Rightarrow> store" where
  "set_Region_Current r v \<sigma> = \<sigma>\<lparr>regions := (regions \<sigma>)(r := (regions \<sigma> r)\<lparr>Current := Some v\<rparr>)\<rparr>"

definition set_PseudoState_IsActive :: "addr \<Rightarrow> bool \<Rightarrow> store \<Rightarrow> store" where
  "set_PseudoState_IsActive p b \<sigma> =
     \<sigma>\<lparr>pseudoStates := (pseudoStates \<sigma>)(p := (pseudoStates \<sigma> p)\<lparr>PseudoState.IsActive := Some b\<rparr>)\<rparr>"

definition set_State_IsActive :: "addr \<Rightarrow> bool \<Rightarrow> store \<Rightarrow> store" where
  "set_State_IsActive s b \<sigma> = \<sigma>\<lparr>states := (states \<sigma>)(s := (states \<sigma> s)\<lparr>State.IsActive := b\<rparr>)\<rparr>"

definition set_FinalState_IsActive :: "addr \<Rightarrow> bool \<Rightarrow> store \<Rightarrow> store" where
  "set_FinalState_IsActive f b \<sigma> =
     \<sigma>\<lparr>finalStates := (finalStates \<sigma>)(f := (finalStates \<sigma> f)\<lparr>FinalState.IsActive := b\<rparr>)\<rparr>"

text \<open>\<^verbatim>\<open>x.IsActive === true\<close> for an object of any class (a pseudo state starts without the field).\<close>
fun node_IsActive :: "store \<Rightarrow> node \<Rightarrow> bool" where
  "node_IsActive \<sigma> (ARegion r) = Region.IsActive (regions \<sigma> r)"
| "node_IsActive \<sigma> (AState s) = State.IsActive (states \<sigma> s)"
| "node_IsActive \<sigma> (APseudoState p) = (PseudoState.IsActive (pseudoStates \<sigma> p) = Some True)"
| "node_IsActive \<sigma> (AFinalState f) = FinalState.IsActive (finalStates \<sigma> f)"

text \<open>The truth value of an optional boolean argument; a missing argument is \<^verbatim>\<open>undefined\<close>.\<close>
fun truthy :: "bool option \<Rightarrow> bool" where
  "truthy None = False"
| "truthy (Some b) = b"

section \<open>The methods\<close>

text \<open>
  A method call is a value of \<open>call\<close>; the methods below take the function \<open>rec\<close> that
  performs a nested call, and \<open>exec\<close> at the end ties the knot with a bound on the depth
  of the call chain.
\<close>
datatype call =
    OnExit node
  | BeginEnter node
  | EndEnter node "bool option"
  | Initialise node "bool option"
  | Process node message
  | Completion_Traverse addr "bool option"
  | Transition_Traverse addr message

subsection \<open>Region\<close>

definition Region_IsComplete :: "store \<Rightarrow> addr \<Rightarrow> bool" where
  "Region_IsComplete \<sigma> r =
     (case Current (regions \<sigma> r) of Some (AFinalState f) \<Rightarrow> True | _ \<Rightarrow> False)"

text \<open>
  \<^verbatim>\<open>( ( deepHistory || this.Initial.Kind.IsHistory ) && this.Current ) ? this.Current : this.Initial\<close>,
  followed by the lookup of \<^verbatim>\<open>Initialise\<close> on the result. Reading \<^verbatim>\<open>Kind\<close> of a missing
  \<^verbatim>\<open>Initial\<close> and calling a method of a missing vertex both raise a TypeError.
\<close>
definition Region_Initialise_vertex :: "addr \<Rightarrow> bool \<Rightarrow> node comp" where
  "Region_Initialise_vertex r deepHistory \<sigma> =
     (let this = regions \<sigma> r in
      if deepHistory then
        (case Current this of
           Some c \<Rightarrow> return c \<sigma>
         | None \<Rightarrow> (case Initial this of
                      Some i \<Rightarrow> return (APseudoState i) \<sigma>
                    | None \<Rightarrow> throw TypeError \<sigma>))
      else
        (case Initial this of
           None \<Rightarrow> throw TypeError \<sigma>
         | Some i \<Rightarrow>
             if IsHistory (Kind (pseudoStates \<sigma> i)) then
               (case Current this of
                  Some c \<Rightarrow> return c \<sigma>
                | None \<Rightarrow> return (APseudoState i) \<sigma>)
             else return (APseudoState i) \<sigma>))"

definition Region_Initialise :: "(call \<Rightarrow> val comp) \<Rightarrow> addr \<Rightarrow> bool option \<Rightarrow> val comp" where
  "Region_Initialise rec r deepHistory =
     andThen (rec (BeginEnter (ARegion r)))
       (bind (Region_Initialise_vertex r (truthy deepHistory))
          (\<lambda>vertex. rec (Initialise vertex (Some (truthy deepHistory)))))"

text \<open>The body has no \<^verbatim>\<open>return\<close>: whatever \<^verbatim>\<open>this.Current.Process\<close> returns is dropped.\<close>
definition Region_Process :: "(call \<Rightarrow> val comp) \<Rightarrow> addr \<Rightarrow> message \<Rightarrow> val comp" where
  "Region_Process rec r message \<sigma> =
     (case Current (regions \<sigma> r) of
        None \<Rightarrow> throw TypeError \<sigma>
      | Some c \<Rightarrow> andThen (rec (Process c message)) (return Undefined) \<sigma>)"

definition Region_OnExit :: "(call \<Rightarrow> val comp) \<Rightarrow> addr \<Rightarrow> val comp" where
  "Region_OnExit rec r =
     andThen
       (\<lambda>\<sigma>. case Current (regions \<sigma> r) of
               None \<Rightarrow> return Undefined \<sigma>
             | Some c \<Rightarrow> if node_IsActive \<sigma> c then rec (OnExit c) \<sigma> else return Undefined \<sigma>)
       (andThen (console_log (LogLeave (ARegion r)))
          (modify (set_Region_IsActive r False)))"

definition Region_BeginEnter :: "(call \<Rightarrow> val comp) \<Rightarrow> addr \<Rightarrow> val comp" where
  "Region_BeginEnter rec r =
     andThen
       (\<lambda>\<sigma>. if Region.IsActive (regions \<sigma> r) then rec (OnExit (ARegion r)) \<sigma>
            else return Undefined \<sigma>)
       (andThen (console_log (LogEnter (ARegion r)))
          (modify (set_Region_IsActive r True)))"

subsection \<open>PseudoState\<close>

text \<open>\<^verbatim>\<open>Kind.GetCompletion\<close>: only an exit point filters by guard.\<close>
definition GetCompletion :: "store \<Rightarrow> PseudoStateKind \<Rightarrow> addr list \<Rightarrow> error + addr" where
  "GetCompletion \<sigma> kind cs =
     (if kind = ExitPoint then single (Some (\<lambda>c. Completion.Guard (completions \<sigma> c) ())) cs
      else single None cs)"

definition PseudoState_Initialise :: "(call \<Rightarrow> val comp) \<Rightarrow> addr \<Rightarrow> val comp" where
  "PseudoState_Initialise rec p =
     andThen (rec (BeginEnter (APseudoState p))) (rec (EndEnter (APseudoState p) (Some False)))"

definition PseudoState_OnExit :: "addr \<Rightarrow> val comp" where
  "PseudoState_OnExit p =
     andThen (console_log (LogLeave (APseudoState p))) (modify (set_PseudoState_IsActive p False))"

definition PseudoState_BeginEnter :: "addr \<Rightarrow> val comp" where
  "PseudoState_BeginEnter p = console_log (LogEnter (APseudoState p))"

definition PseudoState_EndEnter :: "(call \<Rightarrow> val comp) \<Rightarrow> addr \<Rightarrow> bool option \<Rightarrow> val comp" where
  "PseudoState_EndEnter rec p deepHistory \<sigma> =
     (let this = pseudoStates \<sigma> p in
      case GetCompletion \<sigma> (Kind this) (PseudoState.Completions this) of
        Inl e \<Rightarrow> throw e \<sigma>
      | Inr c \<Rightarrow> rec (Completion_Traverse c deepHistory) \<sigma>)"

subsection \<open>State\<close>

definition IsSimple :: "State \<Rightarrow> bool" where
  "IsSimple this = (length (Regions this) = 0)"

definition State_Initialise :: "(call \<Rightarrow> val comp) \<Rightarrow> addr \<Rightarrow> val comp" where
  "State_Initialise rec s =
     andThen (rec (BeginEnter (AState s))) (rec (EndEnter (AState s) (Some False)))"

text \<open>The \<^verbatim>\<open>for\<close> loop over \<^verbatim>\<open>this.Regions\<close> with the flag \<^verbatim>\<open>processed\<close>.\<close>
fun Process_Regions :: "(call \<Rightarrow> val comp) \<Rightarrow> message \<Rightarrow> addr list \<Rightarrow> bool \<Rightarrow> val comp" where
  "Process_Regions rec message [] processed = return (Boolean processed)"
| "Process_Regions rec message (r # rs) processed =
     (\<lambda>\<sigma>. if Region.IsActive (regions \<sigma> r) then
             bind (rec (Process (ARegion r) message))
               (\<lambda>v. Process_Regions rec message rs (if v = Boolean True then True else processed)) \<sigma>
           else Process_Regions rec message rs processed \<sigma>)"

definition State_Process :: "(call \<Rightarrow> val comp) \<Rightarrow> addr \<Rightarrow> message \<Rightarrow> val comp" where
  "State_Process rec s message \<sigma> =
     (let this = states \<sigma> s in
      case singleOrDefault (Some (\<lambda>t. Transition.Guard (transitions \<sigma> t) message)) (Transitions this) of
        Inl e \<Rightarrow> throw e \<sigma>
      | Inr (Some transition) \<Rightarrow>
          andThen (rec (Transition_Traverse transition message)) (return (Boolean True)) \<sigma>
      | Inr None \<Rightarrow>
          if \<not> IsSimple this then Process_Regions rec message (Regions this) False \<sigma>
          else return (Boolean False) \<sigma>)"

definition State_OnExit :: "(call \<Rightarrow> val comp) \<Rightarrow> addr \<Rightarrow> val comp" where
  "State_OnExit rec s =
     andThen
       (\<lambda>\<sigma>. forEach
              (\<lambda>region \<sigma>'. if Region.IsActive (regions \<sigma>' region) then rec (OnExit (ARegion region)) \<sigma>'
                           else return Undefined \<sigma>')
              (Regions (states \<sigma> s)) \<sigma>)
       (andThen (\<lambda>\<sigma>. forEach (invoke None) (State.Exit (states \<sigma> s)) \<sigma>)
          (andThen (console_log (LogLeave (AState s)))
             (modify (set_State_IsActive s False))))"

definition State_BeginEnter :: "(call \<Rightarrow> val comp) \<Rightarrow> addr \<Rightarrow> val comp" where
  "State_BeginEnter rec s =
     andThen
       (\<lambda>\<sigma>. if State.IsActive (states \<sigma> s) then rec (OnExit (AState s)) \<sigma> else return Undefined \<sigma>)
       (andThen (console_log (LogEnter (AState s)))
          (andThen (modify (set_State_IsActive s True))
             (andThen
                (\<lambda>\<sigma>. case State.Parent (states \<sigma> s) of
                        Some parent \<Rightarrow> modify (set_Region_Current parent (AState s)) \<sigma>
                      | None \<Rightarrow> return Undefined \<sigma>)
                (\<lambda>\<sigma>. forEach (invoke None) (Entry (states \<sigma> s)) \<sigma>))))"

text \<open>
  The last statement of the source is \<^verbatim>\<open>completion( deepHistory )\<close>, where \<^verbatim>\<open>completion\<close> is
  the \<^verbatim>\<open>Completion\<close> object that \<^verbatim>\<open>singleOrDefault\<close> returned: an object built by
  \<^verbatim>\<open>new Completion\<close> is not a function, so the call raises a TypeError.
\<close>
definition State_EndEnter :: "(call \<Rightarrow> val comp) \<Rightarrow> addr \<Rightarrow> bool option \<Rightarrow> val comp" where
  "State_EndEnter rec s deepHistory =
     andThen
       (\<lambda>\<sigma>. forEach (\<lambda>region. rec (Initialise (ARegion region) deepHistory)) (Regions (states \<sigma> s)) \<sigma>)
       (\<lambda>\<sigma>. let this = states \<sigma> s in
            if length (State.Completions this) > 0 then
              if IsSimple this \<or> list_all (Region_IsComplete \<sigma>) (Regions this) then
                (case singleOrDefault (Some (\<lambda>c. Completion.Guard (completions \<sigma> c) ()))
                        (State.Completions this) of
                   Inl e \<Rightarrow> throw e \<sigma>
                 | Inr (Some completion) \<Rightarrow> throw TypeError \<sigma>
                 | Inr None \<Rightarrow> return Undefined \<sigma>)
              else return Undefined \<sigma>
            else return Undefined \<sigma>)"

subsection \<open>FinalState\<close>

definition FinalState_Initialise :: "(call \<Rightarrow> val comp) \<Rightarrow> addr \<Rightarrow> val comp" where
  "FinalState_Initialise rec f =
     andThen (rec (BeginEnter (AFinalState f))) (rec (EndEnter (AFinalState f) (Some False)))"

text \<open>The prototype of \<^verbatim>\<open>FinalState\<close> has no \<^verbatim>\<open>OnExit\<close>: calling it raises a TypeError.\<close>
definition FinalState_BeginEnter :: "(call \<Rightarrow> val comp) \<Rightarrow> addr \<Rightarrow> val comp" where
  "FinalState_BeginEnter rec f =
     andThen
       (\<lambda>\<sigma>. if FinalState.IsActive (finalStates \<sigma> f) then rec (OnExit (AFinalState f)) \<sigma>
            else return Undefined \<sigma>)
       (andThen (console_log (LogEnter (AFinalState f)))
          (andThen (modify (set_FinalState_IsActive f True))
             (\<lambda>\<sigma>. modify (set_Region_Current (FinalState.Parent (finalStates \<sigma> f)) (AFinalState f)) \<sigma>)))"

subsection \<open>Completion and Transition\<close>

text \<open>One closure of \<^verbatim>\<open>Path.Exit\<close>: \<^verbatim>\<open>function() { s.OnExit(); }\<close>, with \<^verbatim>\<open>s\<close> possibly \<^verbatim>\<open>undefined\<close>.\<close>
definition Path_Exit_action :: "(call \<Rightarrow> val comp) \<Rightarrow> node option \<Rightarrow> val comp" where
  "Path_Exit_action rec s = (case s of None \<Rightarrow> throw TypeError | Some n \<Rightarrow> rec (OnExit n))"

text \<open>One closure of \<^verbatim>\<open>Path.Enter\<close>: \<^verbatim>\<open>function() { t.BeginEnter(); }\<close>.\<close>
definition Path_Enter_action :: "(call \<Rightarrow> val comp) \<Rightarrow> node \<Rightarrow> val comp" where
  "Path_Enter_action rec t = rec (BeginEnter t)"

text \<open>
  \<^verbatim>\<open>path.Complete = function() { target.EndEnter(); }\<close>: the closure takes no parameter, so
  the flag it is called with is lost and \<^verbatim>\<open>EndEnter\<close> receives \<^verbatim>\<open>undefined\<close>.
\<close>
definition Path_Complete :: "(call \<Rightarrow> val comp) \<Rightarrow> Path \<Rightarrow> bool option \<Rightarrow> val comp" where
  "Path_Complete rec path deepHistory = rec (EndEnter (Complete path) None)"

definition Completion_Traverse_body :: "(call \<Rightarrow> val comp) \<Rightarrow> addr \<Rightarrow> bool option \<Rightarrow> val comp" where
  "Completion_Traverse_body rec c deepHistory \<sigma> =
     (let this = completions \<sigma> c in
      andThen (forEach (Path_Exit_action rec) (Path.Exit (Completion.Path this)))
        (andThen (forEach (invoke None) (Completion.Effect this))
           (andThen (forEach (Path_Enter_action rec) (Enter (Completion.Path this)))
              (Path_Complete rec (Completion.Path this) deepHistory))) \<sigma>)"

definition Transition_Traverse_body :: "(call \<Rightarrow> val comp) \<Rightarrow> addr \<Rightarrow> message \<Rightarrow> val comp" where
  "Transition_Traverse_body rec t message \<sigma> =
     (let this = transitions \<sigma> t in
      andThen (forEach (Path_Exit_action rec) (Path.Exit (Transition.Path this)))
        (andThen (forEach (invoke (Some message)) (Transition.Effect this))
           (andThen (forEach (Path_Enter_action rec) (Enter (Transition.Path this)))
              (Path_Complete rec (Transition.Path this) (Some False)))) \<sigma>)"

subsection \<open>Method lookup and the call chain\<close>

text \<open>
  The method a call resolves to, by the class of the receiver. \<^verbatim>\<open>Region\<close> has no
  \<^verbatim>\<open>EndEnter\<close>, \<^verbatim>\<open>PseudoState\<close> no \<^verbatim>\<open>Process\<close> and \<^verbatim>\<open>FinalState\<close> no \<^verbatim>\<open>OnExit\<close>; the vertex
  classes ignore the argument of \<^verbatim>\<open>Initialise\<close>; \<^verbatim>\<open>FinalState\<close> has empty \<^verbatim>\<open>Process\<close> and
  \<^verbatim>\<open>EndEnter\<close>.
\<close>
fun step :: "(call \<Rightarrow> val comp) \<Rightarrow> call \<Rightarrow> val comp" where
  "step rec (OnExit (ARegion r)) = Region_OnExit rec r"
| "step rec (OnExit (AState s)) = State_OnExit rec s"
| "step rec (OnExit (APseudoState p)) = PseudoState_OnExit p"
| "step rec (OnExit (AFinalState f)) = throw TypeError"
| "step rec (BeginEnter (ARegion r)) = Region_BeginEnter rec r"
| "step rec (BeginEnter (AState s)) = State_BeginEnter rec s"
| "step rec (BeginEnter (APseudoState p)) = PseudoState_BeginEnter p"
| "step rec (BeginEnter (AFinalState f)) = FinalState_BeginEnter rec f"
| "step rec (EndEnter (ARegion r) d) = throw TypeError"
| "step rec (EndEnter (AState s) d) = State_EndEnter rec s d"
| "step rec (EndEnter (APseudoState p) d) = PseudoState_EndEnter rec p d"
| "step rec (EndEnter (AFinalState f) d) = return Undefined"
| "step rec (Initialise (ARegion r) d) = Region_Initialise rec r d"
| "step rec (Initialise (AState s) d) = State_Initialise rec s"
| "step rec (Initialise (APseudoState p) d) = PseudoState_Initialise rec p"
| "step rec (Initialise (AFinalState f) d) = FinalState_Initialise rec f"
| "step rec (Process (ARegion r) m) = Region_Process rec r m"
| "step rec (Process (AState s) m) = State_Process rec s m"
| "step rec (Process (APseudoState p) m) = throw TypeError"
| "step rec (Process (AFinalState f) m) = return Undefined"
| "step rec (Completion_Traverse c d) = Completion_Traverse_body rec c d"
| "step rec (Transition_Traverse t m) = Transition_Traverse_body rec t m"

text \<open>
  \<open>exec n c\<close> runs the call \<open>c\<close> with call chains of depth at most \<open>n\<close>; a deeper chain
  (among them every endless one) gives \<open>None\<close>.
\<close>
primrec exec :: "nat \<Rightarrow> call \<Rightarrow> val comp" where
  "exec 0 c = (\<lambda>\<sigma>. None)"
| "exec (Suc n) c = step (exec n) c"

section \<open>Building the model\<close>

subsection \<open>Ancestors and Path\<close>

fun node_Parent :: "store \<Rightarrow> node \<Rightarrow> node option" where
  "node_Parent \<sigma> (ARegion r) = map_option AState (Region.Parent (regions \<sigma> r))"
| "node_Parent \<sigma> (AState s) = map_option ARegion (State.Parent (states \<sigma> s))"
| "node_Parent \<sigma> (APseudoState p) = Some (ARegion (PseudoState.Parent (pseudoStates \<sigma> p)))"
| "node_Parent \<sigma> (AFinalState f) = Some (ARegion (FinalState.Parent (finalStates \<sigma> f)))"

text \<open>The recursion follows \<^verbatim>\<open>Parent\<close>; it does not return on a cyclic chain (\<open>None\<close>).\<close>
partial_function (option) Ancestors :: "store \<Rightarrow> node \<Rightarrow> node list option" where
  "Ancestors \<sigma> n =
     (case node_Parent \<sigma> n of
        Some parent \<Rightarrow> Option.bind (Ancestors \<sigma> parent) (\<lambda>as. Some (as @ [n]))
      | None \<Rightarrow> Some [n])"

declare Ancestors.simps [code]

text \<open>\<^verbatim>\<open>xs[ i ]\<close>: \<^verbatim>\<open>undefined\<close> (\<open>None\<close>) beyond the end of the array.\<close>
definition at_index :: "'a list \<Rightarrow> nat \<Rightarrow> 'a option" where
  "at_index xs i = (if i < length xs then Some (xs ! i) else None)"

text \<open>
  \<^verbatim>\<open>while( sourceAncestors[ i ] === targetAncestors[ i ] ) { i++; }\<close>: beyond the end of
  both arrays the test compares \<^verbatim>\<open>undefined\<close> with \<^verbatim>\<open>undefined\<close> and stays true, so the
  loop does not end when the two ancestries are equal.
\<close>
partial_function (option) Path_loop :: "node list \<Rightarrow> node list \<Rightarrow> nat \<Rightarrow> nat option" where
  "Path_loop sourceAncestors targetAncestors i =
     (if at_index sourceAncestors i = at_index targetAncestors i
      then Path_loop sourceAncestors targetAncestors (Suc i)
      else Some i)"

declare Path_loop.simps [code]

fun instanceof_PseudoState :: "node \<Rightarrow> bool" where
  "instanceof_PseudoState (APseudoState p) = True"
| "instanceof_PseudoState _ = False"

definition Path :: "store \<Rightarrow> node \<Rightarrow> node \<Rightarrow> Path option" where
  "Path \<sigma> source target =
     (case Ancestors \<sigma> source of
        None \<Rightarrow> None
      | Some sourceAncestors \<Rightarrow>
     (case Ancestors \<sigma> target of
        None \<Rightarrow> None
      | Some targetAncestors \<Rightarrow>
     (case Path_loop sourceAncestors targetAncestors 0 of
        None \<Rightarrow> None
      | Some i \<Rightarrow>
          Some \<lparr>Path.Exit =
                  (if instanceof_PseudoState source \<and> at_index sourceAncestors i \<noteq> Some source
                   then [Some source] else [])
                  @ [at_index sourceAncestors i],
                Enter = drop i targetAncestors,
                Complete = target\<rparr>)))"

subsection \<open>Constructors\<close>

text \<open>
  \<^verbatim>\<open>new\<close> takes the next free address for \<^verbatim>\<open>this\<close> before the constructor body runs. A
  failed \<^verbatim>\<open>console.assert\<close> is taken to throw (\<open>AssertionError\<close>); where it only prints,
  the statement after it raises a TypeError on the same arguments.
\<close>
definition allocate :: "store \<Rightarrow> store" where
  "allocate \<sigma> = \<sigma>\<lparr>fresh := Suc (fresh \<sigma>)\<rparr>"

definition push_Regions :: "addr \<Rightarrow> addr \<Rightarrow> store \<Rightarrow> store" where
  "push_Regions s r \<sigma> =
     \<sigma>\<lparr>states := (states \<sigma>)(s := (states \<sigma> s)\<lparr>Regions := Regions (states \<sigma> s) @ [r]\<rparr>)\<rparr>"

definition push_Vertices :: "addr \<Rightarrow> node \<Rightarrow> store \<Rightarrow> store" where
  "push_Vertices r v \<sigma> =
     \<sigma>\<lparr>regions := (regions \<sigma>)(r := (regions \<sigma> r)\<lparr>Vertices := Vertices (regions \<sigma> r) @ [v]\<rparr>)\<rparr>"

definition new_Region :: "string \<Rightarrow> node option \<Rightarrow> addr comp" where
  "new_Region name parent \<sigma> =
     (let this = fresh \<sigma>;
          fields = (\<lambda>p \<sigma>'. \<sigma>'\<lparr>regions := (regions \<sigma>')(this :=
                     \<lparr>Region.Name = name, Region.Parent = p, Region.IsActive = False,
                      Vertices = [], Initial = None, Current = None\<rparr>)\<rparr>)
      in case parent of
           None \<Rightarrow> return this (fields None (allocate \<sigma>))
         | Some (AState s) \<Rightarrow> return this (fields (Some s) (push_Regions s this (allocate \<sigma>)))
         | Some _ \<Rightarrow> throw (AssertionError ''parent must be a State'') (allocate \<sigma>))"

definition DefaultRegion :: "addr \<Rightarrow> addr comp" where
  "DefaultRegion s \<sigma> =
     (case defaultRegion (states \<sigma> s) of
        Some r \<Rightarrow> return r \<sigma>
      | None \<Rightarrow>
          bind (new_Region ''default'' (Some (AState s)))
            (\<lambda>r \<sigma>'. return r (\<sigma>'\<lparr>states := (states \<sigma>')(s := (states \<sigma>' s)\<lparr>defaultRegion := Some r\<rparr>)\<rparr>))
            \<sigma>)"

text \<open>
  The opening of the three vertex constructors: a state given as parent stands for its
  default region, and the result must be a region (or, for a \<^verbatim>\<open>State\<close>, nothing).
\<close>
definition parent_Region :: "node option \<Rightarrow> addr option comp" where
  "parent_Region parent =
     (case parent of
        None \<Rightarrow> return None
      | Some (AState s) \<Rightarrow> bind (DefaultRegion s) (\<lambda>r. return (Some r))
      | Some (ARegion r) \<Rightarrow> return (Some r)
      | Some _ \<Rightarrow> throw (AssertionError ''parent must be a Region''))"

definition new_PseudoState :: "PseudoStateKind \<Rightarrow> node option \<Rightarrow> addr comp" where
  "new_PseudoState kind parent \<sigma> =
     (let this = fresh \<sigma> in
      bind (parent_Region parent)
        (\<lambda>parent. case parent of
           None \<Rightarrow> throw (AssertionError ''parent must be a Region'')
         | Some r \<Rightarrow>
             andThen
               (modify (\<lambda>\<sigma>'. \<sigma>'\<lparr>pseudoStates := (pseudoStates \<sigma>')(this :=
                  \<lparr>Kind = kind, PseudoState.Parent = r, PseudoState.Completions = [],
                   PseudoState.IsActive = None\<rparr>)\<rparr>))
               (andThen
                  (\<lambda>\<sigma>'. if IsInitial kind then
                           (case Initial (regions \<sigma>' r) of
                              Some i \<Rightarrow> throw (Error ''Regions can have at most 1 initial pseudo state'') \<sigma>'
                            | None \<Rightarrow>
                                modify (\<lambda>\<sigma>''. \<sigma>''\<lparr>regions := (regions \<sigma>'')(r :=
                                  (regions \<sigma>'' r)\<lparr>Initial := Some this\<rparr>)\<rparr>) \<sigma>')
                         else return Undefined \<sigma>')
                  (andThen (modify (push_Vertices r (APseudoState this))) (return this))))
        (allocate \<sigma>))"

definition new_State :: "string \<Rightarrow> node option \<Rightarrow> addr comp" where
  "new_State name parent \<sigma> =
     (let this = fresh \<sigma> in
      bind (parent_Region parent)
        (\<lambda>parent.
           andThen
             (case parent of
                None \<Rightarrow> return Undefined
              | Some r \<Rightarrow> modify (push_Vertices r (AState this)))
             (andThen
                (modify (\<lambda>\<sigma>'. \<sigma>'\<lparr>states := (states \<sigma>')(this :=
                   \<lparr>State.Name = name, State.Parent = parent, State.IsActive = False,
                    Entry = [], State.Exit = [], Regions = [], State.Completions = [],
                    Transitions = [], defaultRegion = None\<rparr>)\<rparr>))
                (return this)))
        (allocate \<sigma>))"

definition new_FinalState :: "string \<Rightarrow> node option \<Rightarrow> addr comp" where
  "new_FinalState name parent \<sigma> =
     (let this = fresh \<sigma> in
      bind (parent_Region parent)
        (\<lambda>parent. case parent of
           None \<Rightarrow> throw (AssertionError ''parent must be a Region'')
         | Some r \<Rightarrow>
             andThen
               (modify (\<lambda>\<sigma>'. \<sigma>'\<lparr>finalStates := (finalStates \<sigma>')(this :=
                  \<lparr>FinalState.Name = name, FinalState.Parent = r, FinalState.IsActive = False\<rparr>)\<rparr>))
               (andThen (modify (push_Vertices r (AFinalState this))) (return this)))
        (allocate \<sigma>))"

text \<open>
  \<^verbatim>\<open>source.Completions.push( this )\<close>: only states and pseudo states have the array. A
  path that is never computed (\<open>Path\<close> gives \<open>None\<close>) leaves the constructor without result.
\<close>
definition new_Completion :: "node \<Rightarrow> node \<Rightarrow> (unit \<Rightarrow> bool) option \<Rightarrow> addr comp" where
  "new_Completion source target guard \<sigma> =
     (let this = fresh \<sigma>; \<sigma>1 = allocate \<sigma> in
      case Path \<sigma>1 source target of
        None \<Rightarrow> None
      | Some path \<Rightarrow>
          (let \<sigma>2 = \<sigma>1\<lparr>completions := (completions \<sigma>1)(this :=
                      \<lparr>Completion.Guard = (case guard of Some g \<Rightarrow> g | None \<Rightarrow> (\<lambda>_. True)),
                       Completion.Path = path, Completion.Effect = []\<rparr>)\<rparr>
           in case source of
                AState s \<Rightarrow>
                  return this (\<sigma>2\<lparr>states := (states \<sigma>2)(s := (states \<sigma>2 s)
                    \<lparr>State.Completions := State.Completions (states \<sigma>2 s) @ [this]\<rparr>)\<rparr>)
              | APseudoState p \<Rightarrow>
                  return this (\<sigma>2\<lparr>pseudoStates := (pseudoStates \<sigma>2)(p := (pseudoStates \<sigma>2 p)
                    \<lparr>PseudoState.Completions := PseudoState.Completions (pseudoStates \<sigma>2 p) @ [this]\<rparr>)\<rparr>)
              | _ \<Rightarrow> throw TypeError \<sigma>2))"

definition new_Transition :: "node \<Rightarrow> node \<Rightarrow> (message \<Rightarrow> bool) option \<Rightarrow> addr comp" where
  "new_Transition source target guard \<sigma> =
     (let this = fresh \<sigma>; \<sigma>1 = allocate \<sigma> in
      case source of
        AState s \<Rightarrow>
          (case Path \<sigma>1 source target of
             None \<Rightarrow> None
           | Some path \<Rightarrow>
               (let \<sigma>2 = \<sigma>1\<lparr>transitions := (transitions \<sigma>1)(this :=
                           \<lparr>Transition.Guard = (case guard of Some g \<Rightarrow> g | None \<Rightarrow> (\<lambda>_. True)),
                            Transition.Path = path, Transition.Effect = []\<rparr>)\<rparr>
                in return this (\<sigma>2\<lparr>states := (states \<sigma>2)(s := (states \<sigma>2 s)
                     \<lparr>Transitions := Transitions (states \<sigma>2 s) @ [this]\<rparr>)\<rparr>)))
      | _ \<Rightarrow> throw (AssertionError ''Source of a transition must be a State'') \<sigma>1)"

subsection \<open>Actions registered by the client\<close>

text \<open>\<^verbatim>\<open>state.Entry.push( f )\<close>, \<^verbatim>\<open>state.Exit.push( f )\<close> and \<^verbatim>\<open>transition.Effect.push( f )\<close>.\<close>
definition Entry_push :: "addr \<Rightarrow> action \<Rightarrow> val comp" where
  "Entry_push s a =
     modify (\<lambda>\<sigma>. \<sigma>\<lparr>states := (states \<sigma>)(s := (states \<sigma> s)\<lparr>Entry := Entry (states \<sigma> s) @ [a]\<rparr>)\<rparr>)"

definition Exit_push :: "addr \<Rightarrow> action \<Rightarrow> val comp" where
  "Exit_push s a =
     modify (\<lambda>\<sigma>. \<sigma>\<lparr>states := (states \<sigma>)(s := (states \<sigma> s)\<lparr>State.Exit := State.Exit (states \<sigma> s) @ [a]\<rparr>)\<rparr>)"

definition Effect_push :: "addr \<Rightarrow> action \<Rightarrow> val comp" where
  "Effect_push t a =
     modify (\<lambda>\<sigma>. \<sigma>\<lparr>transitions := (transitions \<sigma>)(t := (transitions \<sigma> t)
       \<lparr>Transition.Effect := Transition.Effect (transitions \<sigma> t) @ [a]\<rparr>)\<rparr>)"

section \<open>Example machines\<close>

text \<open>The store before any object is built; the tables hold placeholders at every address.\<close>
definition empty_store :: store where
  "empty_store =
     \<lparr>regions = (\<lambda>_. \<lparr>Region.Name = [], Region.Parent = None, Region.IsActive = False,
                       Vertices = [], Initial = None, Current = None\<rparr>),
      pseudoStates = (\<lambda>_. \<lparr>Kind = PseudoStateKind.Initial, PseudoState.Parent = 0,
                            PseudoState.Completions = [], PseudoState.IsActive = None\<rparr>),
      states = (\<lambda>_. \<lparr>State.Name = [], State.Parent = None, State.IsActive = False,
                      Entry = [], State.Exit = [], Regions = [], State.Completions = [],
                      Transitions = [], defaultRegion = None\<rparr>),
      finalStates = (\<lambda>_. \<lparr>FinalState.Name = [], FinalState.Parent = 0, FinalState.IsActive = False\<rparr>),
      completions = (\<lambda>_. \<lparr>Completion.Guard = (\<lambda>_. True),
                            Completion.Path = \<lparr>Path.Exit = [], Enter = [], Complete = ARegion 0\<rparr>,
                            Completion.Effect = []\<rparr>),
      transitions = (\<lambda>_. \<lparr>Transition.Guard = (\<lambda>_. True),
                            Transition.Path = \<lparr>Path.Exit = [], Enter = [], Complete = ARegion 0\<rparr>,
                            Transition.Effect = []\<rparr>),
      fresh = 0, console = []\<rparr>"

text \<open>The store a construction script leaves when it returns normally (the empty store otherwise).\<close>
definition built :: "'a comp \<Rightarrow> store" where
  "built script = (case script empty_store of Some (Return x, \<sigma>) \<Rightarrow> \<sigma> | _ \<Rightarrow> empty_store)"

text \<open>
  The store after a call that returns normally, with the console cleared so that what
  is printed from then on can be read off (the store as it was if the call does not
  return normally).
\<close>
definition after :: "'a comp \<Rightarrow> store \<Rightarrow> store" where
  "after m \<sigma> = (case m \<sigma> of Some (Return x, \<sigma>') \<Rightarrow> \<sigma>'\<lparr>console := []\<rparr> | _ \<Rightarrow> \<sigma>)"

text \<open>
  A state \<^verbatim>\<open>root\<close> (address 0) with one region \<^verbatim>\<open>r\<close> (1), whose initial pseudo state (2)
  leads to state \<^verbatim>\<open>A\<close> (3); \<^verbatim>\<open>A\<close> goes to \<^verbatim>\<open>B\<close> (4) on \<^verbatim>\<open>"go"\<close> by transition 6 and has two
  more transitions to \<^verbatim>\<open>B\<close> (7, 8) that are both enabled by \<^verbatim>\<open>"dup"\<close>.
\<close>
definition toggle_script :: "val comp" where
  "toggle_script =
     bind (new_State ''root'' None) (\<lambda>root.
     bind (new_Region ''r'' (Some (AState root))) (\<lambda>r.
     bind (new_PseudoState PseudoStateKind.Initial (Some (ARegion r))) (\<lambda>initial.
     bind (new_State ''A'' (Some (ARegion r))) (\<lambda>A.
     bind (new_State ''B'' (Some (ARegion r))) (\<lambda>B.
     bind (new_Completion (APseudoState initial) (AState A) None) (\<lambda>c.
     bind (new_Transition (AState A) (AState B) (Some (\<lambda>m. m = ''go''))) (\<lambda>t.
     bind (new_Transition (AState A) (AState B) (Some (\<lambda>m. m = ''dup''))) (\<lambda>t2.
     bind (new_Transition (AState A) (AState B) (Some (\<lambda>m. m = ''dup''))) (\<lambda>t3.
     andThen (Effect_push t ''effect1'')
    (andThen (Effect_push t ''effect2'')
    (andThen (Entry_push A ''enterA'')
    (andThen (Exit_push A ''exitA'')
       (Entry_push B ''enterB'')))))))))))))"

text \<open>The machine after \<^verbatim>\<open>root.Initialise()\<close>: \<^verbatim>\<open>root\<close>, \<^verbatim>\<open>r\<close> and \<^verbatim>\<open>A\<close> are active.\<close>
definition toggle :: store where
  "toggle = after (exec 7 (Initialise (AState 0) None)) (built toggle_script)"

text \<open>
  An orthogonal state \<^verbatim>\<open>S\<close> (0) with regions \<^verbatim>\<open>r1\<close> (1) and \<^verbatim>\<open>r2\<close> (2), declared in this
  order; the initial pseudo state of \<^verbatim>\<open>r1\<close> (3) leads to \<^verbatim>\<open>a\<close> (4), that of \<^verbatim>\<open>r2\<close> (5) to
  \<^verbatim>\<open>x\<close> (6).
\<close>
definition orthogonal_script :: "val comp" where
  "orthogonal_script =
     bind (new_State ''S'' None) (\<lambda>S.
     bind (new_Region ''r1'' (Some (AState S))) (\<lambda>r1.
     bind (new_Region ''r2'' (Some (AState S))) (\<lambda>r2.
     bind (new_PseudoState PseudoStateKind.Initial (Some (ARegion r1))) (\<lambda>i1.
     bind (new_State ''a'' (Some (ARegion r1))) (\<lambda>a.
     bind (new_PseudoState PseudoStateKind.Initial (Some (ARegion r2))) (\<lambda>i2.
     bind (new_State ''x'' (Some (ARegion r2))) (\<lambda>x.
     bind (new_Completion (APseudoState i1) (AState a) None) (\<lambda>c1.
     bind (new_Completion (APseudoState i2) (AState x) None) (\<lambda>c2.
     andThen (Exit_push S ''exitS1'')
       (Exit_push S ''exitS2''))))))))))"

text \<open>The machine after \<^verbatim>\<open>S.Initialise()\<close>: \<^verbatim>\<open>S\<close>, both regions, \<^verbatim>\<open>a\<close> and \<^verbatim>\<open>x\<close> are active.\<close>
definition orthogonal :: store where
  "orthogonal = after (exec 7 (Initialise (AState 0) None)) (built orthogonal_script)"

text \<open>
  A state \<^verbatim>\<open>root\<close> (0) with region \<^verbatim>\<open>r\<close> (1), initial pseudo state (2) leading to the simple
  state \<^verbatim>\<open>A\<close> (3), and a completion (6) from \<^verbatim>\<open>A\<close> to \<^verbatim>\<open>B\<close> (4) with the default guard.
  The machine is built and not yet initialised.
\<close>
definition completing_script :: "val comp" where
  "completing_script =
     bind (new_State ''root'' None) (\<lambda>root.
     bind (new_Region ''r'' (Some (AState root))) (\<lambda>r.
     bind (new_PseudoState PseudoStateKind.Initial (Some (ARegion r))) (\<lambda>initial.
     bind (new_State ''A'' (Some (ARegion r))) (\<lambda>A.
     bind (new_State ''B'' (Some (ARegion r))) (\<lambda>B.
     bind (new_Completion (APseudoState initial) (AState A) None) (\<lambda>c.
     bind (new_Completion (AState A) (AState B) None) (\<lambda>c2.
     andThen (Exit_push A ''exitA'')
       (Entry_push B ''enterB''))))))))"

definition completing :: store where
  "completing = built completing_script"

text \<open>A region on its own, without vertices (address 0).\<close>
definition lone_region :: store where
  "lone_region = built (new_Region ''r'' None)"

section \<open>The instance and evaluate\<close>

text \<open>
  Modelled from the spec: the state machine instance. The sources declare it
  (\<^verbatim>\<open>IInstance\<close> in \<^verbatim>\<open>lib/state.com.d.ts\<close>, with \<^verbatim>\<open>isTerminated\<close>, \<^verbatim>\<open>setCurrent\<close> and
  \<^verbatim>\<open>getCurrent\<close>) and do not contain the code that implements it. It holds the last-known
  state of every region and the terminated flag; \<open>performed\<close> lists the guards and
  actions that were called on its behalf.
\<close>
record Instance =
  current :: "addr \<Rightarrow> node option"
  isTerminated :: bool
  performed :: "event list"

text \<open>
  Modelled from the spec: entering a pseudo state of kind \<^verbatim>\<open>Terminate\<close>, which the enumeration
  of \<^verbatim>\<open>lib/state.com.d.ts\<close> declares and \<^verbatim>\<open>src/src/state.js\<close> does not have. It "sets
  \<^verbatim>\<open>instance.isTerminated=true\<close> and halts further traversal with no further actions".
\<close>
definition Terminate_enter :: "Instance \<Rightarrow> Instance" where
  "Terminate_enter instance = instance\<lparr>isTerminated := True\<rparr>"

text \<open>
  Modelled from the spec: \<^verbatim>\<open>evaluate( model, instance, message )\<close>, declared in
  \<^verbatim>\<open>lib/state.com.d.ts\<close>, its code missing. Step 1 of the spec is "If
  \<^verbatim>\<open>instance.isTerminated\<close>, return false immediately"; the steps after it (the walk down
  the active states, the guards, the traversal) are the parameter \<open>dispatch\<close>.
\<close>
definition evaluate ::
  "(message \<Rightarrow> Instance \<Rightarrow> bool \<times> Instance) \<Rightarrow> Instance \<Rightarrow> message \<Rightarrow> bool \<times> Instance" where
  "evaluate dispatch instance message =
     (if isTerminated instance then (False, instance) else dispatch message instance)"

text \<open>
  Modelled from the spec: a client that calls \<^verbatim>\<open>evaluate\<close> (above) once per message, in
  order, on the same instance; the results are collected.
\<close>
fun evaluate_all ::
  "(message \<Rightarrow> Instance \<Rightarrow> bool \<times> Instance) \<Rightarrow> Instance \<Rightarrow> message list \<Rightarrow> bool list \<times> Instance" where
  "evaluate_all dispatch instance [] = ([], instance)"
| "evaluate_all dispatch instance (m # ms) =
     (case evaluate dispatch instance m of
        (b, instance') \<Rightarrow>
          (case evaluate_all dispatch instance' ms of (bs, instance'') \<Rightarrow> (b # bs, instance'')))"

section \<open>Notions used in the statements\<close>

text \<open>The outgoing transitions of state \<open>s\<close> whose guard is true for message \<open>m\<close>, in declaration order.\<close>
definition enabled :: "store \<Rightarrow> addr \<Rightarrow> message \<Rightarrow> addr list" where
  "enabled \<sigma> s m = filter (\<lambda>t. Transition.Guard (transitions \<sigma> t) m) (Transitions (states \<sigma> s))"

text \<open>
  The index at which two ancestries part: the length of their longest common prefix. The
  lowest common ancestor sits just before it, its child on either side at it.
\<close>
definition LCA_child_index :: "node list \<Rightarrow> node list \<Rightarrow> nat" where
  "LCA_child_index sourceAncestors targetAncestors =
     length (longest_common_prefix sourceAncestors targetAncestors)"

text \<open>In a list of events, the first \<open>x\<close> is followed by a \<open>y\<close>.\<close>
definition precedes :: "'a \<Rightarrow> 'a \<Rightarrow> 'a list \<Rightarrow> bool" where
  "precedes x y es \<longleftrightarrow> y \<in> set (dropWhile (\<lambda>e. e \<noteq> x) es)"

text \<open>What can be seen of a run from outside: how it ended and what was printed and called.\<close>
definition observe :: "('a outcome \<times> store) option \<Rightarrow> ('a outcome \<times> event list) option" where
  "observe r = map_option (\<lambda>(v, \<sigma>). (v, console \<sigma>)) r"

text \<open>What a run printed and called (nothing when the call chain is too deep).\<close>
definition console_of :: "('a outcome \<times> store) option \<Rightarrow> event list" where
  "console_of r = (case r of Some (v, \<sigma>) \<Rightarrow> console \<sigma> | None \<Rightarrow> [])"

text \<open>A computation that relates the store it starts on to the store it ends on, whatever the outcome.\<close>
definition preserves :: "(store \<Rightarrow> store \<Rightarrow> bool) \<Rightarrow> 'a comp \<Rightarrow> bool" where
  "preserves P m \<longleftrightarrow> (\<forall>\<sigma> x \<sigma>'. m \<sigma> = Some (x, \<sigma>') \<longrightarrow> P \<sigma> \<sigma>')"

text \<open>
  The links and arrays that an exit cascade leaves alone (it writes activity flags and
  the console only).
\<close>
definition same_links :: "store \<Rightarrow> store \<Rightarrow> bool" where
  "same_links \<sigma> \<sigma>' \<longleftrightarrow>
     (\<forall>r. Current (regions \<sigma>' r) = Current (regions \<sigma> r)
        \<and> Region.Initial (regions \<sigma>' r) = Region.Initial (regions \<sigma> r))
     \<and> (\<forall>p. Kind (pseudoStates \<sigma>' p) = Kind (pseudoStates \<sigma> p))
     \<and> (\<forall>s. State.Parent (states \<sigma>' s) = State.Parent (states \<sigma> s)
           \<and> Regions (states \<sigma>' s) = Regions (states \<sigma> s)
           \<and> Entry (states \<sigma>' s) = Entry (states \<sigma> s)
           \<and> State.Exit (states \<sigma>' s) = State.Exit (states \<sigma> s))"



section \<open>Lemmas\<close>

subsection \<open>Evaluating the definitions\<close>

lemma exec_numeral: "exec (numeral k) c = step (exec (pred_numeral k)) c"
  by (simp add: numeral_eq_Suc)

lemma bind_weak_cong: "\<sigma> = \<sigma>' \<Longrightarrow> bind m k \<sigma> = bind m k \<sigma>'"
  by simp

lemma andThen_weak_cong: "\<sigma> = \<sigma>' \<Longrightarrow> andThen m k \<sigma> = andThen m k \<sigma>'"
  by simp

lemma forEach_weak_cong: "xs = xs' \<Longrightarrow> \<sigma> = \<sigma>' \<Longrightarrow> forEach f xs \<sigma> = forEach f xs' \<sigma>'"
  by simp

text \<open>With these the simplifier runs a computation in program order, on the store at hand.\<close>
lemmas in_order = bind_weak_cong andThen_weak_cong forEach_weak_cong

lemmas monad_defs = bind_def andThen_def return_def throw_def modify_def console_log_def invoke_def

lemmas build_defs =
  new_State_def new_Region_def new_PseudoState_def new_FinalState_def new_Completion_def
  new_Transition_def parent_Region_def DefaultRegion_def allocate_def push_Regions_def
  push_Vertices_def Path_def Ancestors.simps Path_loop.simps at_index_def
  Entry_push_def Exit_push_def Effect_push_def empty_store_def built_def after_def exec_numeral

lemmas method_defs =
  Region_Initialise_def Region_Initialise_vertex_def Region_Process_def Region_OnExit_def
  Region_BeginEnter_def Region_IsComplete_def GetCompletion_def PseudoState_Initialise_def
  PseudoState_OnExit_def PseudoState_BeginEnter_def PseudoState_EndEnter_def IsSimple_def
  State_Initialise_def State_Process_def State_OnExit_def State_BeginEnter_def State_EndEnter_def
  FinalState_Initialise_def FinalState_BeginEnter_def
  Path_Exit_action_def Path_Enter_action_def Path_Complete_def
  Completion_Traverse_body_def Transition_Traverse_body_def single_def singleOrDefault_def
  set_Region_IsActive_def set_Region_Current_def set_State_IsActive_def
  set_PseudoState_IsActive_def set_FinalState_IsActive_def

lemmas toggle_defs = toggle_def toggle_script_def monad_defs build_defs method_defs
lemmas orthogonal_defs = orthogonal_def orthogonal_script_def monad_defs build_defs method_defs
lemmas completing_defs = completing_def completing_script_def monad_defs build_defs method_defs

subsection \<open>The monad\<close>

lemma bind_return: "bind (return x) k = k x"
  by (rule ext) (simp add: bind_def return_def)

lemma bind_throw: "bind (throw e) k = throw e"
  by (rule ext) (simp add: bind_def throw_def)

lemma bind_Some_Return: "m \<sigma> = Some (Return x, \<sigma>') \<Longrightarrow> bind m k \<sigma> = k x \<sigma>'"
  by (simp add: bind_def)

lemma bind_Some_Throw: "m \<sigma> = Some (Throw e, \<sigma>') \<Longrightarrow> bind m k \<sigma> = Some (Throw e, \<sigma>')"
  by (simp add: bind_def)

lemma bind_eq_Return:
  "bind m k \<sigma> = Some (Return y, \<sigma>'') \<longleftrightarrow> (\<exists>x \<sigma>'. m \<sigma> = Some (Return x, \<sigma>') \<and> k x \<sigma>' = Some (Return y, \<sigma>''))"
  by (auto simp: bind_def split: option.splits outcome.splits prod.splits)

lemma andThen_eq_Return:
  "andThen m k \<sigma> = Some (Return y, \<sigma>'') \<longleftrightarrow> (\<exists>x \<sigma>'. m \<sigma> = Some (Return x, \<sigma>') \<and> k \<sigma>' = Some (Return y, \<sigma>''))"
  by (simp add: andThen_def bind_eq_Return)

lemma forEach_invoke:
  "forEach (invoke m) as \<sigma> = Some (Return Undefined, \<sigma>\<lparr>console := console \<sigma> @ map (\<lambda>a. Invoke a m) as\<rparr>)"
  by (induction as arbitrary: \<sigma>)
     (simp_all add: return_def andThen_def bind_def invoke_def console_log_def modify_def)


lemma singleOrDefault_one:
  "filter p xs = [x] \<Longrightarrow> singleOrDefault (Some p) xs = Inr (Some x)"
  by (simp add: singleOrDefault_def Let_def)

lemma singleOrDefault_none:
  "filter p xs = [] \<Longrightarrow> singleOrDefault (Some p) xs = Inr None"
  by (simp add: singleOrDefault_def Let_def)

subsection \<open>Relations kept by a computation\<close>

lemma preservesD: "preserves P m \<Longrightarrow> m \<sigma> = Some (x, \<sigma>') \<Longrightarrow> P \<sigma> \<sigma>'"
  by (simp add: preserves_def)

lemma preserves_return: "reflp P \<Longrightarrow> preserves P (return x)"
  by (auto simp: preserves_def return_def elim: reflpE)

lemma preserves_throw: "reflp P \<Longrightarrow> preserves P (throw e)"
  by (auto simp: preserves_def throw_def elim: reflpE)

lemma preserves_modify: "(\<And>\<sigma>. P \<sigma> (f \<sigma>)) \<Longrightarrow> preserves P (modify f)"
  by (simp add: preserves_def modify_def)

lemma preserves_bind:
  assumes "transp P" "preserves P m" "\<And>x. preserves P (k x)"
  shows "preserves P (bind m k)"
  unfolding preserves_def
proof (intro allI impI)
  fix \<sigma> y \<sigma>''
  assume b: "bind m k \<sigma> = Some (y, \<sigma>'')"
  show "P \<sigma> \<sigma>''"
  proof (cases "m \<sigma>")
    case None
    with b show ?thesis by (simp add: bind_def)
  next
    case (Some a)
    obtain o1 \<sigma>' where a: "a = (o1, \<sigma>')" by (cases a)
    have 1: "P \<sigma> \<sigma>'" using assms(2) Some a by (simp add: preserves_def)
    show ?thesis
    proof (cases o1)
      case (Return x)
      with b Some a have "k x \<sigma>' = Some (y, \<sigma>'')" by (simp add: bind_def)
      then have "P \<sigma>' \<sigma>''" using assms(3) by (simp add: preserves_def)
      with 1 show ?thesis using assms(1) by (blast dest: transpD)
    next
      case (Throw e)
      with b Some a have "\<sigma>'' = \<sigma>'" by (simp add: bind_def)
      with 1 show ?thesis by simp
    qed
  qed
qed

lemma preserves_andThen:
  "transp P \<Longrightarrow> preserves P m \<Longrightarrow> preserves P k \<Longrightarrow> preserves P (andThen m k)"
  by (simp add: andThen_def preserves_bind)

lemma preserves_forEach:
  "reflp P \<Longrightarrow> transp P \<Longrightarrow> (\<And>x. preserves P (f x)) \<Longrightarrow> preserves P (forEach f xs)"
  by (induction xs) (simp_all add: preserves_return preserves_andThen)

lemma preserves_lam: "(\<And>\<sigma>0. preserves P (f \<sigma>0)) \<Longrightarrow> preserves P (\<lambda>\<sigma>. f \<sigma> \<sigma>)"
  by (simp add: preserves_def)

lemma reflp_same_links: "reflp same_links"
  by (simp add: reflp_def same_links_def)

lemma same_links_refl: "same_links \<sigma> \<sigma>"
  by (simp add: same_links_def)

lemma transp_same_links: "transp same_links"
  by (simp add: transp_def same_links_def)

lemmas links_intros =
  preserves_andThen [OF transp_same_links] preserves_bind [OF transp_same_links]
  preserves_return [OF reflp_same_links] preserves_throw [OF reflp_same_links]
  preserves_forEach [OF reflp_same_links transp_same_links]

lemma same_links_console_log: "preserves same_links (console_log e)"
  by (simp add: console_log_def preserves_modify same_links_def)

lemma OnExit_same_links: "preserves same_links (exec n (OnExit x))"
proof (induction n arbitrary: x)
  case 0
  show ?case by (simp add: preserves_def)
next
  case (Suc n)
  have IH: "\<And>y. preserves same_links (exec n (OnExit y))" by (rule Suc.IH)
  show ?case
  proof (cases x)
    case (ARegion r)
    have "preserves same_links
            (\<lambda>\<sigma>. case Current (regions \<sigma> r) of None \<Rightarrow> return Undefined \<sigma>
                 | Some c \<Rightarrow> if node_IsActive \<sigma> c then exec n (OnExit c) \<sigma> else return Undefined \<sigma>)"
      using IH
      by (auto simp: preserves_def return_def same_links_refl split: option.splits if_splits)
    moreover have "preserves same_links (modify (set_Region_IsActive r False))"
      by (simp add: preserves_modify set_Region_IsActive_def same_links_def)
    ultimately have "preserves same_links (Region_OnExit (exec n) r)"
      unfolding Region_OnExit_def by (intro links_intros same_links_console_log)
    then show ?thesis using ARegion by simp
  next
    case (AState s)
    have "\<And>rs. preserves same_links (forEach
              (\<lambda>region \<sigma>'. if Region.IsActive (regions \<sigma>' region) then exec n (OnExit (ARegion region)) \<sigma>'
                           else return Undefined \<sigma>') rs)"
      apply (rule links_intros)
      using IH
      by (auto simp: preserves_def return_def same_links_refl split: if_splits)
    then have 1: "preserves same_links (\<lambda>\<sigma>. forEach
              (\<lambda>region \<sigma>'. if Region.IsActive (regions \<sigma>' region) then exec n (OnExit (ARegion region)) \<sigma>'
                           else return Undefined \<sigma>') (Regions (states \<sigma> s)) \<sigma>)"
      by (simp add: preserves_def)
    have "\<And>as. preserves same_links (forEach (invoke None) as)"
      by (intro links_intros) (simp add: invoke_def same_links_console_log)
    then have 2: "preserves same_links (\<lambda>\<sigma>. forEach (invoke None) (State.Exit (states \<sigma> s)) \<sigma>)"
      by (simp add: preserves_def)
    have 3: "preserves same_links (modify (set_State_IsActive s False))"
      by (simp add: preserves_modify set_State_IsActive_def same_links_def)
    have "preserves same_links (State_OnExit (exec n) s)"
      unfolding State_OnExit_def by (intro links_intros same_links_console_log 1 2 3)
    then show ?thesis using AState by simp
  next
    case (APseudoState p)
    have "preserves same_links (modify (set_PseudoState_IsActive p False))"
      by (simp add: preserves_modify set_PseudoState_IsActive_def same_links_def)
    then have "preserves same_links (PseudoState_OnExit p)"
      unfolding PseudoState_OnExit_def by (intro links_intros same_links_console_log)
    then show ?thesis using APseudoState by simp
  next
    case (AFinalState f)
    then show ?thesis by (simp add: links_intros)
  qed
qed

lemma Region_BeginEnter_same_links: "preserves same_links (exec (Suc n) (BeginEnter (ARegion r)))"
proof -
  have "preserves same_links
          (\<lambda>\<sigma>. if Region.IsActive (regions \<sigma> r) then exec n (OnExit (ARegion r)) \<sigma>
               else return Undefined \<sigma>)"
    using OnExit_same_links [of n "ARegion r"]
    by (auto simp: preserves_def return_def same_links_refl split: if_splits)
  moreover have "preserves same_links (modify (set_Region_IsActive r True))"
    by (simp add: preserves_modify set_Region_IsActive_def same_links_def)
  ultimately show ?thesis
    unfolding exec.simps step.simps Region_BeginEnter_def
    by (intro links_intros same_links_console_log)
qed

subsection \<open>The console grows\<close>












subsection \<open>What Process returns\<close>

lemma Region_Process_Undefined:
  "exec (Suc n) (Process (ARegion r) m) \<sigma> = Some (Return v, \<sigma>') \<Longrightarrow> v = Undefined"
  by (auto simp: Region_Process_def andThen_def bind_def return_def throw_def
           split: option.splits outcome.splits prod.splits)

lemma Process_Regions_result:
  "(\<And>r \<sigma> v \<sigma>'. rec (Process (ARegion r) m) \<sigma> = Some (Return v, \<sigma>') \<Longrightarrow> v = Undefined) \<Longrightarrow>
     Process_Regions rec m rs processed \<sigma> = Some (Return v, \<sigma>') \<Longrightarrow> v = Boolean processed"
proof (induction rs arbitrary: \<sigma> processed)
  case Nil
  then show ?case by (simp add: return_def)
next
  case (Cons r rs)
  show ?case
  proof (cases "Region.IsActive (regions \<sigma> r)")
    case False
    with Cons.prems(2) have "Process_Regions rec m rs processed \<sigma> = Some (Return v, \<sigma>')" by simp
    then show ?thesis using Cons.IH Cons.prems(1) by blast
  next
    case True
    with Cons.prems(2) obtain u \<sigma>1 where
      1: "rec (Process (ARegion r) m) \<sigma> = Some (Return u, \<sigma>1)" and
      2: "Process_Regions rec m rs (if u = Boolean True then True else processed) \<sigma>1 = Some (Return v, \<sigma>')"
      by (auto simp: bind_eq_Return)
    from 1 have "u = Undefined" by (rule Cons.prems(1))
    with 2 have "Process_Regions rec m rs processed \<sigma>1 = Some (Return v, \<sigma>')" by simp
    then show ?thesis using Cons.IH Cons.prems(1) by blast
  qed
qed

lemma State_Process_never_reports_descendants:
  assumes "enabled \<sigma> s m = []"
      and "exec (Suc (Suc n)) (Process (AState s) m) \<sigma> = Some (Return v, \<sigma>')"
  shows "v = Boolean False"
proof -
  have none: "singleOrDefault (Some (\<lambda>t. Transition.Guard (transitions \<sigma> t) m)) (Transitions (states \<sigma> s)) = Inr None"
    using assms(1) by (simp add: enabled_def singleOrDefault_none)
  show ?thesis
  proof (cases "IsSimple (states \<sigma> s)")
    case True
    with assms(2) none show ?thesis by (simp add: State_Process_def Let_def return_def)
  next
    case False
    with assms(2) none have
      "Process_Regions (exec (Suc n)) m (Regions (states \<sigma> s)) False \<sigma> = Some (Return v, \<sigma>')"
      by (simp add: State_Process_def Let_def)
    then show ?thesis
      using Process_Regions_result [of "exec (Suc n)" m] Region_Process_Undefined by blast
  qed
qed


subsection \<open>The completions of a state\<close>

text \<open>Whenever a state is complete and exactly one of its completions has a true guard, the end of its entry throws.\<close>
lemma State_EndEnter_completion_TypeError:
  assumes regions: "forEach (\<lambda>region. exec n (Initialise (ARegion region) d)) (Regions (states \<sigma> s)) \<sigma> =
                      Some (Return u, \<sigma>1)"
      and complete: "IsSimple (states \<sigma>1 s) \<or> list_all (Region_IsComplete \<sigma>1) (Regions (states \<sigma>1 s))"
      and one: "filter (\<lambda>c. Completion.Guard (completions \<sigma>1 c) ()) (State.Completions (states \<sigma>1 s)) = [c]"
  shows "exec (Suc n) (EndEnter (AState s) d) \<sigma> = Some (Throw TypeError, \<sigma>1)"
proof -
  have "State.Completions (states \<sigma>1 s) \<noteq> []"
    using one by auto
  then have "0 < length (State.Completions (states \<sigma>1 s))" by simp
  then show ?thesis
    using complete
    by (simp add: State_EndEnter_def andThen_def bind_def regions Let_def
          singleOrDefault_one [OF one] throw_def)
qed

subsection \<open>A terminated instance\<close>

lemma evaluate_all_terminated:
  "isTerminated instance \<Longrightarrow>
     evaluate_all dispatch instance ms = (replicate (length ms) False, instance)"
  by (induction ms) (simp_all add: evaluate_def)


subsection \<open>The loop of Path\<close>

lemma at_index_Nil: "at_index [] i = None"
  by (simp add: at_index_def)

lemma at_index_Cons_0: "at_index (x # xs) 0 = Some x"
  by (simp add: at_index_def)

lemma at_index_Cons_Suc: "at_index (x # xs) (Suc i) = at_index xs i"
  by (simp add: at_index_def)

lemmas at_index_simps = at_index_Nil at_index_Cons_0 at_index_Cons_Suc

lemma at_index_common:
  "i < length (longest_common_prefix xs ys) \<Longrightarrow> at_index xs i = at_index ys i"
proof (induction xs ys arbitrary: i rule: longest_common_prefix.induct)
  case (1 x xs y ys)
  then show ?case by (cases i) (auto simp: at_index_simps split: if_splits)
qed simp_all

lemma at_index_diverge:
  "xs \<noteq> ys \<Longrightarrow>
     at_index xs (length (longest_common_prefix xs ys)) \<noteq> at_index ys (length (longest_common_prefix xs ys))"
proof (induction xs arbitrary: ys)
  case Nil
  then show ?case by (cases ys) (auto simp: at_index_simps)
next
  case (Cons x xs)
  show ?case
  proof (cases ys)
    case Nil
    then show ?thesis by (simp add: at_index_simps)
  next
    case (Cons y zs)
    with Cons.prems Cons.IH [of zs] show ?thesis
      by (auto simp: at_index_simps)
  qed
qed

lemma Path_loop_terminates:
  assumes "xs \<noteq> ys" and "i \<le> length (longest_common_prefix xs ys)"
  shows "Path_loop xs ys i = Some (length (longest_common_prefix xs ys))"
  using assms(2)
proof (induction "length (longest_common_prefix xs ys) - i" arbitrary: i)
  case 0
  then have i: "i = length (longest_common_prefix xs ys)" by simp
  show ?case
    by (subst Path_loop.simps) (simp add: i at_index_diverge [OF assms(1)])
next
  case (Suc k)
  then have lt: "i < length (longest_common_prefix xs ys)" by simp
  have "Path_loop xs ys (Suc i) = Some (length (longest_common_prefix xs ys))"
    using Suc.hyps(1) [of "Suc i"] Suc.hyps(2) lt by simp
  then show ?case
    by (subst Path_loop.simps) (simp add: at_index_common [OF lt])
qed

lemma Ancestors_last:
  "Ancestors \<sigma> n = Some as \<Longrightarrow> as \<noteq> [] \<and> last as = n"
  by (subst (asm) Ancestors.simps) (auto split: option.splits simp: bind_eq_Some_conv)


lemma Ancestors_same_parents:
  "Ancestors \<sigma> n = Some as \<Longrightarrow> node_Parent \<sigma>' = node_Parent \<sigma> \<Longrightarrow> Ancestors \<sigma>' n = Some as"
proof (induction \<sigma> n as rule: Ancestors.raw_induct [rotated, consumes 1, case_names step])
  case (step anc \<sigma> n as)
  show ?case
  proof (cases "node_Parent \<sigma> n")
    case None
    with step(2,3) show ?thesis
      by (subst Ancestors.simps) simp
  next
    case (Some parent)
    with step(2) obtain bs where bs: "anc \<sigma> parent = Some bs" "as = bs @ [n]"
      by (auto simp: bind_eq_Some_conv)
    from step(1) [OF bs(1) step(3)] have "Ancestors \<sigma>' parent = Some bs" .
    with Some step(3) bs(2) show ?thesis
      by (subst Ancestors.simps) simp
  qed
qed

lemma node_Parent_allocate: "node_Parent (allocate \<sigma>) = node_Parent \<sigma>"
proof (rule ext)
  fix n show "node_Parent (allocate \<sigma>) n = node_Parent \<sigma> n"
    by (cases n) (simp_all add: allocate_def)
qed


subsection \<open>Loops over arrays\<close>

lemma forEach_Undefined: "forEach f xs \<sigma> = Some (Return v, \<sigma>') \<Longrightarrow> v = Undefined"
  by (induction xs arbitrary: \<sigma>) (auto simp: return_def andThen_eq_Return)

lemma forEach_chain:
  "forEach f xs \<sigma> = Some (Return v, \<sigma>') \<Longrightarrow>
     \<exists>\<sigma>s. length \<sigma>s = Suc (length xs) \<and> \<sigma>s ! 0 = \<sigma> \<and> last \<sigma>s = \<sigma>'
        \<and> (\<forall>i<length xs. \<exists>u. f (xs ! i) (\<sigma>s ! i) = Some (Return u, \<sigma>s ! Suc i))"
proof (induction xs arbitrary: \<sigma>)
  case Nil
  then have "\<sigma>' = \<sigma>" by (simp add: return_def)
  then show ?case by (intro exI [of _ "[\<sigma>]"]) simp
next
  case (Cons x xs)
  from Cons.prems obtain u \<sigma>1 where
    1: "f x \<sigma> = Some (Return u, \<sigma>1)" and 2: "forEach f xs \<sigma>1 = Some (Return v, \<sigma>')"
    by (auto simp: andThen_eq_Return)
  from Cons.IH [OF 2] obtain \<sigma>s where
    s: "length \<sigma>s = Suc (length xs)" "\<sigma>s ! 0 = \<sigma>1" "last \<sigma>s = \<sigma>'"
       "\<forall>i<length xs. \<exists>u. f (xs ! i) (\<sigma>s ! i) = Some (Return u, \<sigma>s ! Suc i)"
    by blast
  have ne: "\<sigma>s \<noteq> []" using s(1) by auto
  have "\<forall>i<length (x # xs). \<exists>u. f ((x # xs) ! i) ((\<sigma> # \<sigma>s) ! i) = Some (Return u, (\<sigma> # \<sigma>s) ! Suc i)"
  proof (intro allI impI)
    fix i assume "i < length (x # xs)"
    then show "\<exists>u. f ((x # xs) ! i) ((\<sigma> # \<sigma>s) ! i) = Some (Return u, (\<sigma> # \<sigma>s) ! Suc i)"
      using 1 s(2) s(4) by (cases i) auto
  qed
  then show ?case
    using s(1) s(3) ne by (intro exI [of _ "\<sigma> # \<sigma>s"]) simp
qed


subsection \<open>The exit of a state\<close>

lemma State_OnExit_result:
  assumes "exec (Suc n) (OnExit (AState s)) \<sigma> = Some (Return v, \<sigma>')"
  shows "\<exists>\<sigma>1. forEach
              (\<lambda>region \<sigma>'. if Region.IsActive (regions \<sigma>' region) then exec n (OnExit (ARegion region)) \<sigma>'
                           else return Undefined \<sigma>')
              (Regions (states \<sigma> s)) \<sigma> = Some (Return Undefined, \<sigma>1)
          \<and> same_links \<sigma> \<sigma>1
          \<and> \<sigma>' = set_State_IsActive s False
                 (\<sigma>1\<lparr>console := console \<sigma>1 @ map (\<lambda>a. Invoke a None) (State.Exit (states \<sigma> s))
                                  @ [LogLeave (AState s)]\<rparr>)"
proof -
  let ?f = "\<lambda>region \<sigma>'. if Region.IsActive (regions \<sigma>' region) then exec n (OnExit (ARegion region)) \<sigma>'
                           else return Undefined \<sigma>'"
  from assms obtain u \<sigma>1 where
    1: "forEach ?f (Regions (states \<sigma> s)) \<sigma> = Some (Return u, \<sigma>1)" and
    2: "\<sigma>' = set_State_IsActive s False
                 (\<sigma>1\<lparr>console := console \<sigma>1 @ map (\<lambda>a. Invoke a None) (State.Exit (states \<sigma>1 s))
                                  @ [LogLeave (AState s)]\<rparr>)"
    by (auto simp: State_OnExit_def andThen_eq_Return forEach_invoke console_log_def modify_def)
  have "\<And>x. preserves same_links (?f x)"
    using OnExit_same_links
    by (auto simp: preserves_def return_def same_links_refl split: if_splits)
  then have "preserves same_links (forEach ?f (Regions (states \<sigma> s)))"
    by (intro links_intros)
  then have links: "same_links \<sigma> \<sigma>1" using 1 by (rule preservesD)
  then have "State.Exit (states \<sigma>1 s) = State.Exit (states \<sigma> s)"
    by (simp add: same_links_def)
  with 1 2 links forEach_Undefined [OF 1] show ?thesis by auto
qed


subsection \<open>Facts about the example machines\<close>


lemma toggle_Ancestors:
  "Ancestors toggle (APseudoState 2) = Some [AState 0, ARegion 1, APseudoState 2]
   \<and> Ancestors toggle (AState 0) = Some [AState 0]
   \<and> Ancestors toggle (AState 3) = Some [AState 0, ARegion 1, AState 3]"
  by (simp add: toggle_defs cong: in_order)

section \<open>The claims\<close>

subsection \<open>C1: completion transitions of a state\<close>

text \<open>
  C1. The claim: a completion transition of a state that finished entering and is complete
  fires. In \<^verbatim>\<open>State.prototype.EndEnter\<close> the completion that was found is called as if it
  were a function. On the machine \<open>completing\<close>, whose simple state \<^verbatim>\<open>A\<close> (3) has one
  completion (6) with a true guard, initialising the root ends in a TypeError right after
  \<^verbatim>\<open>A\<close> was entered: \<^verbatim>\<open>A\<close> is not left, \<^verbatim>\<open>B\<close> is not entered and no action runs.
\<close>
theorem completion_is_called_as_function:
  "State.Completions (states completing 3) = [6]
   \<and> Completion.Guard (completions completing 6) ()
   \<and> IsSimple (states completing 3)
   \<and> observe (exec 7 (Initialise (AState 0) None) completing) =
       Some (Throw TypeError,
             [LogEnter (AState 0), LogEnter (ARegion 1), LogEnter (APseudoState 2),
              LogLeave (APseudoState 2), LogEnter (AState 3)])"
  by (simp add: observe_def completing_defs cong: in_order)

subsection \<open>C2: what Process reports\<close>

text \<open>
  C2. The claim: when no transition of a composite state is enabled, \<^verbatim>\<open>Process\<close> reports the
  message as consumed exactly when an active descendant consumed it. \<^verbatim>\<open>Region.prototype.Process\<close>
  drops the result of its current state. On the machine \<open>toggle\<close> the active state \<^verbatim>\<open>A\<close> (3)
  consumes \<^verbatim>\<open>"go"\<close> (it returns true and the transition to \<^verbatim>\<open>B\<close> is traversed), and the
  root, which has no transition of its own, runs the same traversal and returns false.
\<close>
theorem Process_result_dropped:
  "enabled toggle 0 ''go'' = []
   \<and> Regions (states toggle 0) = [1]
   \<and> Region.IsActive (regions toggle 1)
   \<and> Current (regions toggle 1) = Some (AState 3)
   \<and> observe (exec 3 (Process (AState 3) ''go'') toggle) =
       Some (Return (Boolean True),
             [Invoke ''exitA'' None, LogLeave (AState 3), Invoke ''effect1'' (Some ''go''),
              Invoke ''effect2'' (Some ''go''), LogEnter (AState 4), Invoke ''enterB'' None])
   \<and> observe (exec 5 (Process (AState 0) ''go'') toggle) =
       Some (Return (Boolean False),
             [Invoke ''exitA'' None, LogLeave (AState 3), Invoke ''effect1'' (Some ''go''),
              Invoke ''effect2'' (Some ''go''), LogEnter (AState 4), Invoke ''enterB'' None])"
  by (simp add: observe_def enabled_def toggle_defs cong: in_order)

subsection \<open>C3: the order of regions on exit and on entry\<close>

text \<open>
  C3, as amended. Exiting a state exits its active child regions in declaration order
  (the first declared region first): region \<open>i\<close> is exited, if it is active then, on the
  store that regions \<open>0 .. i - 1\<close> left. After the last region the exit actions of the
  state run in order, the state is logged as left and marked inactive. Finishing the
  entry of a state initialises its regions in declaration order in the same way.
\<close>
theorem State_exit_and_entry_order:
  "(exec (Suc n) (OnExit (AState s)) \<sigma> = Some (Return v, \<sigma>') \<longrightarrow>
      (\<exists>\<sigma>s. length \<sigma>s = Suc (length (Regions (states \<sigma> s))) \<and> \<sigma>s ! 0 = \<sigma>
         \<and> (\<forall>i<length (Regions (states \<sigma> s)).
               if Region.IsActive (regions (\<sigma>s ! i) (Regions (states \<sigma> s) ! i))
               then \<exists>u. exec n (OnExit (ARegion (Regions (states \<sigma> s) ! i))) (\<sigma>s ! i) =
                          Some (Return u, \<sigma>s ! Suc i)
               else \<sigma>s ! Suc i = \<sigma>s ! i)
         \<and> \<sigma>' = set_State_IsActive s False
                  ((last \<sigma>s)\<lparr>console := console (last \<sigma>s)
                      @ map (\<lambda>a. Invoke a None) (State.Exit (states \<sigma> s)) @ [LogLeave (AState s)]\<rparr>)))
   \<and> (exec (Suc n) (EndEnter (AState s) d) \<sigma> = Some (Return v, \<sigma>') \<longrightarrow>
      (\<exists>\<sigma>s. length \<sigma>s = Suc (length (Regions (states \<sigma> s))) \<and> \<sigma>s ! 0 = \<sigma> \<and> last \<sigma>s = \<sigma>'
         \<and> (\<forall>i<length (Regions (states \<sigma> s)).
               \<exists>u. exec n (Initialise (ARegion (Regions (states \<sigma> s) ! i)) d) (\<sigma>s ! i) =
                     Some (Return u, \<sigma>s ! Suc i))))"
proof (intro conjI impI)
  assume run: "exec (Suc n) (OnExit (AState s)) \<sigma> = Some (Return v, \<sigma>')"
  let ?f = "\<lambda>region \<sigma>'. if Region.IsActive (regions \<sigma>' region) then exec n (OnExit (ARegion region)) \<sigma>'
                           else return Undefined \<sigma>'"
  from State_OnExit_result [OF run] obtain \<sigma>1 where
    1: "forEach ?f (Regions (states \<sigma> s)) \<sigma> = Some (Return Undefined, \<sigma>1)" and
    2: "\<sigma>' = set_State_IsActive s False
                 (\<sigma>1\<lparr>console := console \<sigma>1 @ map (\<lambda>a. Invoke a None) (State.Exit (states \<sigma> s))
                                  @ [LogLeave (AState s)]\<rparr>)"
    by blast
  from forEach_chain [OF 1] obtain \<sigma>s where
    s: "length \<sigma>s = Suc (length (Regions (states \<sigma> s)))" "\<sigma>s ! 0 = \<sigma>" "last \<sigma>s = \<sigma>1"
       "\<forall>i<length (Regions (states \<sigma> s)). \<exists>u. ?f (Regions (states \<sigma> s) ! i) (\<sigma>s ! i) =
            Some (Return u, \<sigma>s ! Suc i)"
    by blast
  have "\<forall>i<length (Regions (states \<sigma> s)).
               if Region.IsActive (regions (\<sigma>s ! i) (Regions (states \<sigma> s) ! i))
               then \<exists>u. exec n (OnExit (ARegion (Regions (states \<sigma> s) ! i))) (\<sigma>s ! i) =
                          Some (Return u, \<sigma>s ! Suc i)
               else \<sigma>s ! Suc i = \<sigma>s ! i"
    using s(4) by (auto simp: return_def split: if_splits)
  with s(1,2,3) 2
  show "\<exists>\<sigma>s. length \<sigma>s = Suc (length (Regions (states \<sigma> s))) \<and> \<sigma>s ! 0 = \<sigma>
         \<and> (\<forall>i<length (Regions (states \<sigma> s)).
               if Region.IsActive (regions (\<sigma>s ! i) (Regions (states \<sigma> s) ! i))
               then \<exists>u. exec n (OnExit (ARegion (Regions (states \<sigma> s) ! i))) (\<sigma>s ! i) =
                          Some (Return u, \<sigma>s ! Suc i)
               else \<sigma>s ! Suc i = \<sigma>s ! i)
         \<and> \<sigma>' = set_State_IsActive s False
                  ((last \<sigma>s)\<lparr>console := console (last \<sigma>s)
                      @ map (\<lambda>a. Invoke a None) (State.Exit (states \<sigma> s)) @ [LogLeave (AState s)]\<rparr>)"
    by blast
next
  assume run: "exec (Suc n) (EndEnter (AState s) d) \<sigma> = Some (Return v, \<sigma>')"
  then obtain u \<sigma>1 where
    1: "forEach (\<lambda>region. exec n (Initialise (ARegion region) d)) (Regions (states \<sigma> s)) \<sigma> =
          Some (Return u, \<sigma>1)" and
    2: "(let this = states \<sigma>1 s in
            if length (State.Completions this) > 0 then
              if IsSimple this \<or> list_all (Region_IsComplete \<sigma>1) (Regions this) then
                (case singleOrDefault (Some (\<lambda>c. Completion.Guard (completions \<sigma>1 c) ()))
                        (State.Completions this) of
                   Inl e \<Rightarrow> throw e \<sigma>1
                 | Inr (Some completion) \<Rightarrow> throw TypeError \<sigma>1
                 | Inr None \<Rightarrow> return Undefined \<sigma>1)
              else return Undefined \<sigma>1
            else return Undefined \<sigma>1) = Some (Return v, \<sigma>')"
    by (auto simp: State_EndEnter_def andThen_eq_Return)
  from 2 have "\<sigma>' = \<sigma>1"
    by (auto simp: Let_def return_def throw_def split: if_splits sum.splits option.splits)
  with forEach_chain [OF 1]
  show "\<exists>\<sigma>s. length \<sigma>s = Suc (length (Regions (states \<sigma> s))) \<and> \<sigma>s ! 0 = \<sigma> \<and> last \<sigma>s = \<sigma>'
         \<and> (\<forall>i<length (Regions (states \<sigma> s)).
               \<exists>u. exec n (Initialise (ARegion (Regions (states \<sigma> s) ! i)) d) (\<sigma>s ! i) =
                     Some (Return u, \<sigma>s ! Suc i))"
    by simp
qed

text \<open>
  The claim has the regions exited in reverse declaration order. On the machine
  \<open>orthogonal\<close>, with regions 1 and 2 declared in this order and both active, region 1 is
  left before region 2.
\<close>
theorem State_OnExit_reverse_order_counterexample:
  "Regions (states orthogonal 0) = [1, 2]
   \<and> Region.IsActive (regions orthogonal 1)
   \<and> Region.IsActive (regions orthogonal 2)
   \<and> observe (exec 3 (OnExit (AState 0)) orthogonal) =
       Some (Return Undefined,
             [LogLeave (AState 4), LogLeave (ARegion 1), LogLeave (AState 6), LogLeave (ARegion 2),
              Invoke ''exitS1'' None, Invoke ''exitS2'' None, LogLeave (AState 0)])
   \<and> precedes (LogLeave (ARegion 1)) (LogLeave (ARegion 2))
        (console_of (exec 3 (OnExit (AState 0)) orthogonal))
   \<and> \<not> precedes (LogLeave (ARegion 2)) (LogLeave (ARegion 1))
        (console_of (exec 3 (OnExit (AState 0)) orthogonal))"
  by (simp add: observe_def console_of_def precedes_def orthogonal_defs cong: in_order)

theorem State_exit_and_entry_order_witness:
  "(\<exists>v \<sigma>'. exec (Suc 2) (OnExit (AState 0)) orthogonal = Some (Return v, \<sigma>')
      \<and> (\<exists>\<sigma>s. length \<sigma>s = Suc (length (Regions (states orthogonal 0))) \<and> \<sigma>s ! 0 = orthogonal
           \<and> \<sigma>' = set_State_IsActive 0 False
                  ((last \<sigma>s)\<lparr>console := console (last \<sigma>s)
                      @ map (\<lambda>a. Invoke a None) (State.Exit (states orthogonal 0)) @ [LogLeave (AState 0)]\<rparr>)))
   \<and> (\<exists>v \<sigma>'. exec (Suc 6) (EndEnter (AState 0) None) orthogonal = Some (Return v, \<sigma>')
      \<and> (\<exists>\<sigma>s. length \<sigma>s = Suc (length (Regions (states orthogonal 0))) \<and> \<sigma>s ! 0 = orthogonal
           \<and> last \<sigma>s = \<sigma>'))"
proof -
  have "\<exists>\<sigma>'. exec (Suc 2) (OnExit (AState 0)) orthogonal = Some (Return Undefined, \<sigma>')"
    by (simp add: orthogonal_defs cong: in_order)
  then obtain \<sigma>1 where 1: "exec (Suc 2) (OnExit (AState 0)) orthogonal = Some (Return Undefined, \<sigma>1)" ..
  have "\<exists>\<sigma>'. exec (Suc 6) (EndEnter (AState 0) None) orthogonal = Some (Return Undefined, \<sigma>')"
    by (simp add: orthogonal_defs cong: in_order)
  then obtain \<sigma>2 where 2: "exec (Suc 6) (EndEnter (AState 0) None) orthogonal = Some (Return Undefined, \<sigma>2)" ..
  show ?thesis
    using State_exit_and_entry_order [where n = 2 and s = 0 and \<sigma> = orthogonal and v = Undefined
            and \<sigma>' = \<sigma>1] 1
          State_exit_and_entry_order [where n = 6 and s = 0 and \<sigma> = orthogonal and v = Undefined
            and \<sigma>' = \<sigma>2 and d = None] 2
    by blast
qed

subsection \<open>C4: more than one enabled transition\<close>



subsection \<open>C5: where the entry of a region goes\<close>

text \<open>
  C5. Once \<^verbatim>\<open>BeginEnter\<close> of the region has returned, \<^verbatim>\<open>Region.prototype.Initialise\<close> goes on
  with \<^verbatim>\<open>Initialise\<close> of the last-known current state when that is set and either the flag
  is true or the initial pseudo state of the region is of a history kind; otherwise it goes
  on with \<^verbatim>\<open>Initialise\<close> of the initial pseudo state.
\<close>
theorem Region_Initialise_history:
  assumes "exec (Suc n) (BeginEnter (ARegion r)) \<sigma> = Some (Return u, \<sigma>')"
  shows "(\<forall>c. Current (regions \<sigma> r) = Some c
              \<and> (truthy d \<or> (\<exists>i. Region.Initial (regions \<sigma> r) = Some i
                                \<and> IsHistory (Kind (pseudoStates \<sigma> i)))) \<longrightarrow>
            exec (Suc (Suc n)) (Initialise (ARegion r) d) \<sigma> =
              exec (Suc n) (Initialise c (Some (truthy d))) \<sigma>')
       \<and> (\<forall>i. Region.Initial (regions \<sigma> r) = Some i
              \<and> \<not> (Current (regions \<sigma> r) \<noteq> None
                     \<and> (truthy d \<or> IsHistory (Kind (pseudoStates \<sigma> i)))) \<longrightarrow>
            exec (Suc (Suc n)) (Initialise (ARegion r) d) \<sigma> =
              exec (Suc n) (Initialise (APseudoState i) (Some (truthy d))) \<sigma>')"
proof -
  have links: "same_links \<sigma> \<sigma>'"
    using Region_BeginEnter_same_links assms by (rule preservesD)
  then have same:
    "Current (regions \<sigma>' r) = Current (regions \<sigma> r)"
    "Region.Initial (regions \<sigma>' r) = Region.Initial (regions \<sigma> r)"
    "\<And>i. Kind (pseudoStates \<sigma>' i) = Kind (pseudoStates \<sigma> i)"
    by (simp_all add: same_links_def)
  have run: "exec (Suc (Suc n)) (Initialise (ARegion r) d) \<sigma> =
        bind (Region_Initialise_vertex r (truthy d))
          (\<lambda>vertex. exec (Suc n) (Initialise vertex (Some (truthy d)))) \<sigma>'"
    using assms by (simp add: Region_Initialise_def andThen_def bind_Some_Return del: exec.simps(2) add: exec.simps(2) [of "Suc n"])
  show ?thesis
    unfolding run
    by (auto simp: bind_def Region_Initialise_vertex_def Let_def same return_def throw_def
             simp del: exec.simps split: option.splits)
qed

theorem Region_Initialise_history_witness:
  "\<exists>u \<sigma>'. exec (Suc 2) (BeginEnter (ARegion 1)) toggle = Some (Return u, \<sigma>')
     \<and> Current (regions toggle 1) = Some (AState 3)
     \<and> Region.Initial (regions toggle 1) = Some 2
     \<and> \<not> IsHistory (Kind (pseudoStates toggle 2))
     \<and> exec (Suc (Suc 2)) (Initialise (ARegion 1) (Some True)) toggle =
         exec (Suc 2) (Initialise (AState 3) (Some True)) \<sigma>'
     \<and> exec (Suc (Suc 2)) (Initialise (ARegion 1) None) toggle =
         exec (Suc 2) (Initialise (APseudoState 2) (Some False)) \<sigma>'"
proof -
  have "\<exists>\<sigma>'. exec (Suc 2) (BeginEnter (ARegion 1)) toggle = Some (Return Undefined, \<sigma>')"
    by (simp add: toggle_defs cong: in_order)
  then obtain \<sigma>1 where 1: "exec (Suc 2) (BeginEnter (ARegion 1)) toggle = Some (Return Undefined, \<sigma>1)" ..
  have facts: "Current (regions toggle 1) = Some (AState 3)"
    "Region.Initial (regions toggle 1) = Some 2"
    "\<not> IsHistory (Kind (pseudoStates toggle 2))"
    by (simp_all add: toggle_defs cong: in_order)
  have t: "truthy (Some True)" "\<not> truthy None" "truthy None = False" "truthy (Some True) = True"
    by simp_all
  have a: "exec (Suc (Suc 2)) (Initialise (ARegion 1) (Some True)) toggle =
         exec (Suc 2) (Initialise (AState 3) (Some True)) \<sigma>1"
    using Region_Initialise_history [OF 1, where d = "Some True"] facts t by (metis (full_types))
  have b: "exec (Suc (Suc 2)) (Initialise (ARegion 1) None) toggle =
         exec (Suc 2) (Initialise (APseudoState 2) (Some False)) \<sigma>1"
    using Region_Initialise_history [OF 1, where d = None] facts t by (metis (full_types))
  show ?thesis using 1 facts a b by blast
qed

subsection \<open>C6: the extra exit of a pseudo state\<close>

text \<open>
  C6. For a source that is a pseudo state and a target other than it, \<^verbatim>\<open>Path\<close> returns, and
  its exit plan is the exit of the source followed by the exit of the source-side child of
  the lowest common ancestor when that child is not the source itself, and the exit of the
  source alone when it is. A transition out of a pseudo state is a \<^verbatim>\<open>Completion\<close>
  (\<^verbatim>\<open>Transition\<close> asserts that its source is a state), and this path is the one its
  constructor stores.
\<close>
theorem Path_PseudoState_exit:
  assumes "Ancestors \<sigma> (APseudoState p) = Some sa"
      and "Ancestors \<sigma> target = Some ta"
      and "target \<noteq> APseudoState p"
  shows "\<exists>path. Path \<sigma> (APseudoState p) target = Some path
           \<and> (at_index sa (LCA_child_index sa ta) \<noteq> Some (APseudoState p) \<longrightarrow>
                Path.Exit path = [Some (APseudoState p), at_index sa (LCA_child_index sa ta)])
           \<and> (at_index sa (LCA_child_index sa ta) = Some (APseudoState p) \<longrightarrow>
                Path.Exit path = [Some (APseudoState p)])
           \<and> Enter path = drop (LCA_child_index sa ta) ta
           \<and> Complete path = target
           \<and> (\<exists>\<sigma>'. new_Completion (APseudoState p) target guard \<sigma> = Some (Return (fresh \<sigma>), \<sigma>')
                  \<and> Completion.Path (completions \<sigma>' (fresh \<sigma>)) = path)"
proof -
  let ?k = "LCA_child_index sa ta"
  let ?path = "\<lparr>Path.Exit = (if at_index sa ?k \<noteq> Some (APseudoState p) then [Some (APseudoState p)] else [])
                              @ [at_index sa ?k],
                Enter = drop ?k ta, Complete = target\<rparr>"
  have "last sa \<noteq> last ta"
    using Ancestors_last [OF assms(1)] Ancestors_last [OF assms(2)] assms(3) by simp
  then have "sa \<noteq> ta" by auto
  then have loop: "Path_loop sa ta 0 = Some ?k"
    by (simp add: Path_loop_terminates LCA_child_index_def)
  have path: "Path \<sigma> (APseudoState p) target = Some ?path"
    unfolding Path_def by (simp add: assms(1,2) loop)
  have anc: "Ancestors (allocate \<sigma>) (APseudoState p) = Some sa" "Ancestors (allocate \<sigma>) target = Some ta"
    by (rule Ancestors_same_parents [OF assms(1) node_Parent_allocate])
       (rule Ancestors_same_parents [OF assms(2) node_Parent_allocate])
  have path': "Path (allocate \<sigma>) (APseudoState p) target = Some ?path"
    unfolding Path_def by (simp add: anc loop)
  have new: "\<exists>\<sigma>'. new_Completion (APseudoState p) target guard \<sigma> = Some (Return (fresh \<sigma>), \<sigma>')
                  \<and> Completion.Path (completions \<sigma>' (fresh \<sigma>)) = ?path"
    unfolding new_Completion_def Let_def path' by (simp add: return_def allocate_def)
  have fields: "(at_index sa ?k \<noteq> Some (APseudoState p) \<longrightarrow>
                Path.Exit ?path = [Some (APseudoState p), at_index sa ?k])
           \<and> (at_index sa ?k = Some (APseudoState p) \<longrightarrow> Path.Exit ?path = [Some (APseudoState p)])
           \<and> Enter ?path = drop ?k ta \<and> Complete ?path = target"
    by simp
  show ?thesis
    using path new fields by blast
qed

theorem Path_PseudoState_exit_witness:
  "(\<exists>path. Path toggle (APseudoState 2) (AState 0) = Some path
       \<and> Path.Exit path = [Some (APseudoState 2), Some (ARegion 1)])
   \<and> (\<exists>path. Path toggle (APseudoState 2) (AState 3) = Some path
       \<and> Path.Exit path = [Some (APseudoState 2)])"
proof -
  let ?sa = "[AState 0, ARegion 1, APseudoState 2]"
  have 1: "at_index ?sa (LCA_child_index ?sa [AState 0]) = Some (ARegion 1)"
    by (simp add: LCA_child_index_def at_index_def)
  have 2: "at_index ?sa (LCA_child_index ?sa [AState 0, ARegion 1, AState 3]) = Some (APseudoState 2)"
    by (simp add: LCA_child_index_def at_index_def)
  have "\<exists>path. Path toggle (APseudoState 2) (AState 0) = Some path
           \<and> (at_index ?sa (LCA_child_index ?sa [AState 0]) \<noteq> Some (APseudoState 2) \<longrightarrow>
                Path.Exit path = [Some (APseudoState 2), at_index ?sa (LCA_child_index ?sa [AState 0])])"
    using Path_PseudoState_exit [where \<sigma> = toggle and p = 2 and target = "AState 0"
            and sa = ?sa and ta = "[AState 0]"] toggle_Ancestors
    by blast
  then have a: "\<exists>path. Path toggle (APseudoState 2) (AState 0) = Some path
           \<and> Path.Exit path = [Some (APseudoState 2), Some (ARegion 1)]"
    unfolding 1 by simp
  have "\<exists>path. Path toggle (APseudoState 2) (AState 3) = Some path
           \<and> (at_index ?sa (LCA_child_index ?sa [AState 0, ARegion 1, AState 3]) = Some (APseudoState 2) \<longrightarrow>
                Path.Exit path = [Some (APseudoState 2)])"
    using Path_PseudoState_exit [where \<sigma> = toggle and p = 2 and target = "AState 3"
            and sa = ?sa and ta = "[AState 0, ARegion 1, AState 3]"] toggle_Ancestors
    by blast
  then have b: "\<exists>path. Path toggle (APseudoState 2) (AState 3) = Some path
           \<and> Path.Exit path = [Some (APseudoState 2)]"
    unfolding 2 by simp
  show ?thesis using a b by (rule conjI)
qed

subsection \<open>C7: the order of a traversal\<close>



subsection \<open>C8: one initial pseudo state per region\<close>

text \<open>
  C8. In a region without initial pseudo state, constructing a pseudo state of kind
  \<^verbatim>\<open>Initial\<close>, \<^verbatim>\<open>ShallowHistory\<close> or \<^verbatim>\<open>DeepHistory\<close> succeeds and registers it as the
  region's \<^verbatim>\<open>Initial\<close>; in a region that has one, the constructor throws and no region
  is changed (neither \<^verbatim>\<open>Initial\<close> nor \<^verbatim>\<open>Vertices\<close>).
\<close>
theorem PseudoState_second_initial:
  assumes "kind = PseudoStateKind.Initial \<or> kind = ShallowHistory \<or> kind = DeepHistory"
  shows "(Region.Initial (regions \<sigma> r) = None \<longrightarrow>
            (\<exists>\<sigma>'. new_PseudoState kind (Some (ARegion r)) \<sigma> = Some (Return (fresh \<sigma>), \<sigma>')
                \<and> Region.Initial (regions \<sigma>' r) = Some (fresh \<sigma>)
                \<and> Kind (pseudoStates \<sigma>' (fresh \<sigma>)) = kind
                \<and> PseudoState.Parent (pseudoStates \<sigma>' (fresh \<sigma>)) = r
                \<and> Vertices (regions \<sigma>' r) = Vertices (regions \<sigma> r) @ [APseudoState (fresh \<sigma>)]))
       \<and> (Region.Initial (regions \<sigma> r) \<noteq> None \<longrightarrow>
            (\<exists>\<sigma>'. new_PseudoState kind (Some (ARegion r)) \<sigma> =
                    Some (Throw (Error ''Regions can have at most 1 initial pseudo state''), \<sigma>')
                \<and> regions \<sigma>' = regions \<sigma>))"
proof -
  have k: "IsInitial kind" using assms by auto
  show ?thesis
    by (auto simp: new_PseudoState_def parent_Region_def monad_defs allocate_def push_Vertices_def
          Let_def k)
qed

theorem PseudoState_second_initial_witness:
  "Region.Initial (regions lone_region 0) = None
   \<and> (\<exists>\<sigma>'. new_PseudoState DeepHistory (Some (ARegion 0)) lone_region = Some (Return 1, \<sigma>')
          \<and> Region.Initial (regions \<sigma>' 0) = Some 1)
   \<and> Region.Initial (regions toggle 1) = Some 2
   \<and> (\<exists>\<sigma>'. new_PseudoState ShallowHistory (Some (ARegion 1)) toggle =
              Some (Throw (Error ''Regions can have at most 1 initial pseudo state''), \<sigma>')
          \<and> Region.Initial (regions \<sigma>' 1) = Some 2)"
proof -
  have a: "Region.Initial (regions lone_region 0) = None"
    by (simp add: lone_region_def toggle_defs)
  have f: "fresh lone_region = 1"
    by (simp add: lone_region_def toggle_defs)
  have b: "Region.Initial (regions toggle 1) = Some 2"
    by (simp add: toggle_defs cong: in_order)
  have "\<exists>\<sigma>'. new_PseudoState DeepHistory (Some (ARegion 0)) lone_region =
               Some (Return (fresh lone_region), \<sigma>')
           \<and> Region.Initial (regions \<sigma>' 0) = Some (fresh lone_region)"
    using PseudoState_second_initial [where kind = DeepHistory and \<sigma> = lone_region and r = 0] a
    by blast
  then have 1: "\<exists>\<sigma>'. new_PseudoState DeepHistory (Some (ARegion 0)) lone_region = Some (Return 1, \<sigma>')
           \<and> Region.Initial (regions \<sigma>' 0) = Some 1"
    unfolding f .
  have "\<exists>\<sigma>'. new_PseudoState ShallowHistory (Some (ARegion 1)) toggle =
               Some (Throw (Error ''Regions can have at most 1 initial pseudo state''), \<sigma>')
           \<and> regions \<sigma>' = regions toggle"
    using PseudoState_second_initial [where kind = ShallowHistory and \<sigma> = toggle and r = 1] b
    by auto
  then have 2: "\<exists>\<sigma>'. new_PseudoState ShallowHistory (Some (ARegion 1)) toggle =
               Some (Throw (Error ''Regions can have at most 1 initial pseudo state''), \<sigma>')
           \<and> Region.Initial (regions \<sigma>' 1) = Some 2"
    using b by metis
  show ?thesis using a b 1 2 by blast
qed

subsection \<open>C9: a terminated instance\<close>

text \<open>
  C9. Entering a Terminate pseudo state sets the flag of the instance, and from then on
  every call of \<^verbatim>\<open>evaluate\<close> returns false and leaves the instance as it is: nothing is
  added to what was performed, and the result does not depend on the dispatch (no guard is
  consulted).
\<close>
theorem Terminate_absorbs:
  "isTerminated (Terminate_enter instance)
   \<and> evaluate dispatch (Terminate_enter instance) m = (False, Terminate_enter instance)
   \<and> evaluate_all dispatch (Terminate_enter instance) ms =
       (replicate (length ms) False, Terminate_enter instance)"
  by (simp add: evaluate_all_terminated evaluate_def Terminate_enter_def)

subsection \<open>C10: beginning the entry of a state\<close>



end
